theory Spec2Isabelle
  imports Main "HOL-Library.Word"
begin

section \<open>Runtime values\<close>

text \<open>
  The checkers of \<^verbatim>\<open>TypeChecker.ts\<close> take \<^verbatim>\<open>any\<close> value. The values are modelled as
  finite trees:
  \<^item> a number is \<open>NaN\<close>, an infinity, or a finite number given by its integer value
    as a signed 54-bit word: the integers from \<open>-2^53\<close> to \<open>2^53 - 1\<close>, each of which
    is a number of the language (\<open>+0\<close> and \<open>-0\<close> are one value: \<^verbatim>\<open>typeof\<close>, \<^verbatim>\<open>===\<close>,
    \<^verbatim>\<open>includes\<close> and \<^verbatim>\<open>JSON.stringify\<close> do not tell them apart; larger and fractional
    numbers are not represented);
  \<^item> a string is a list of 8-bit characters;
  \<^item> a symbol and a function are references, told apart by a number; what a function
    does when it is called is given by the host, below;
  \<^item> \<open>Object_prototype\<close> is the object \<^verbatim>\<open>Object.prototype\<close> of an unmodified realm;
  \<^item> an ordinary object is its prototype (\<open>Null\<close> or an object) and the list of its own
    data properties in the order of \<^verbatim>\<open>[[OwnPropertyKeys]]\<close>, each with its key, its
    \<^verbatim>\<open>enumerable\<close> flag and its value; keys are pairwise distinct in a real object;
  \<^item> an array is its prototype and the list of its elements (no holes, no further own
    properties but \<^verbatim>\<open>length\<close>).
  Accessor properties other than \<^verbatim>\<open>__proto__\<close> of \<^verbatim>\<open>Object.prototype\<close>, proxies, boxed
  primitives and cyclic object graphs are outside the model.
\<close>

datatype number = NaN | PosInfinity | NegInfinity | Finite "54 word"

datatype pkey = StrKey string | SymKey nat

datatype jsval =
    Undefined
  | Null
  | Boolean bool
  | Number number
  | BigInt int
  | String string
  | Symbol nat
  | Function nat
  | Object_prototype
  | Object jsval "(pkey \<times> bool \<times> jsval) list"
  | Array jsval "jsval list"

text \<open>
  What a call can do besides returning: throw the \<^verbatim>\<open>TypeError\<close> that \<^verbatim>\<open>cast\<close> builds
  (with its message), throw one of the engine's own \<^verbatim>\<open>TypeError\<close>s (their message
  texts differ between engines and are not modelled), or throw what a function of the
  host throws.
\<close>

datatype error =
    TypeError string
  | NotAFunction
  | CannotSerializeBigInt
  | CannotConvertToObject
  | Thrown jsval

text \<open>\<^verbatim>\<open>type TypeChecker<T = any> = (val: any) => val is T\<close>\<close>

type_synonym checker = "jsval \<Rightarrow> error + bool"

text \<open>
  The host says what the function values do, where the source or the engine calls one:
  \<^item> \<open>call_function h f c\<close> is the outcome of calling the function \<open>f\<close> with the
    checker \<open>c\<close> as its argument;
  \<^item> \<open>toJSON_result h f this key\<close> is what \<^verbatim>\<open>JSON.stringify\<close> makes of a value \<open>this\<close>
    whose \<^verbatim>\<open>toJSON\<close> property is the function \<open>f\<close>: it calls \<open>f\<close> on the value with
    the key and goes on with the value \<open>f\<close> returns, so the outcome is the rendering of
    that value, or what the call or the rendering throws.
\<close>

record host =
  call_function :: "nat \<Rightarrow> checker \<Rightarrow> error + jsval"
  toJSON_result :: "nat \<Rightarrow> jsval \<Rightarrow> string \<Rightarrow> error + string option"

subsection \<open>Operators of the language\<close>

fun typeof :: "jsval \<Rightarrow> string" where
  "typeof Undefined = ''undefined''"
| "typeof Null = ''object''"
| "typeof (Boolean b) = ''boolean''"
| "typeof (Number n) = ''number''"
| "typeof (BigInt i) = ''bigint''"
| "typeof (String s) = ''string''"
| "typeof (Symbol n) = ''symbol''"
| "typeof (Function f) = ''function''"
| "typeof Object_prototype = ''object''"
| "typeof (Object proto props) = ''object''"
| "typeof (Array proto elems) = ''object''"

text \<open>\<^verbatim>\<open>ToBoolean\<close>, applied by \<^verbatim>\<open>Array.prototype.every\<close> to what its callback returns.\<close>

fun to_boolean :: "jsval \<Rightarrow> bool" where
  "to_boolean Undefined = False"
| "to_boolean Null = False"
| "to_boolean (Boolean b) = b"
| "to_boolean (Number n) = (n \<noteq> NaN \<and> n \<noteq> Finite 0)"
| "to_boolean (BigInt i) = (i \<noteq> 0)"
| "to_boolean (String s) = (s \<noteq> [])"
| "to_boolean v = True"

text \<open>
  The call \<^verbatim>\<open>f(c)\<close> of a value \<open>f\<close> with a checker as its argument: a function does
  what the host says; a value that is not a function cannot be called, and the engine
  throws a \<^verbatim>\<open>TypeError\<close>.
\<close>

fun call_value :: "host \<Rightarrow> jsval \<Rightarrow> checker \<Rightarrow> error + jsval" where
  "call_value h (Function f) c = call_function h f c"
| "call_value h v c = Inl NotAFunction"

text \<open>
  \<^verbatim>\<open>Array.prototype.every\<close>: the callback runs on the elements from left to right;
  the first falsy result ends the loop with \<^verbatim>\<open>false\<close>, an exception leaves it.
\<close>

fun every :: "('a \<Rightarrow> error + bool) \<Rightarrow> 'a list \<Rightarrow> error + bool" where
  "every p [] = Inr True"
| "every p (x # xs) =
     (case p x of
        Inl e \<Rightarrow> Inl e
      | Inr b \<Rightarrow> if b then every p xs else Inr False)"

text \<open>Decimal digits of a natural number, as \<^verbatim>\<open>ToString\<close> writes an array index.\<close>

fun dec :: "nat \<Rightarrow> string" where
  "dec n = (if n < 10 then [''0123456789'' ! n] else dec (n div 10) @ [''0123456789'' ! (n mod 10)])"

declare dec.simps [simp del]

text \<open>The own property of an array at a key: an element, or \<^verbatim>\<open>length\<close>.\<close>

fun array_own :: "jsval list \<Rightarrow> pkey \<Rightarrow> jsval option" where
  "array_own elems (StrKey s) =
     (if s = ''length'' then Some (Number (Finite (of_nat (length elems))))
      else map_of (zip (map dec [0 ..< length elems]) elems) s)"
| "array_own elems (SymKey n) = None"

text \<open>
  The own properties of \<^verbatim>\<open>Object.prototype\<close>: its methods, which are functions and not
  enumerable, and the accessor \<^verbatim>\<open>__proto__\<close>, whose getter returns the prototype of the
  object on which the property is read.
\<close>

definition Object_prototype_methods :: "(string \<times> nat) list" where
  "Object_prototype_methods =
     [(''constructor'', 0), (''__defineGetter__'', 1), (''__defineSetter__'', 2),
      (''hasOwnProperty'', 3), (''__lookupGetter__'', 4), (''__lookupSetter__'', 5),
      (''isPrototypeOf'', 6), (''propertyIsEnumerable'', 7), (''toString'', 8),
      (''valueOf'', 9), (''toLocaleString'', 10)]"

text \<open>\<^verbatim>\<open>Object.getPrototypeOf(v)\<close> on an object.\<close>

fun prototype_of :: "jsval \<Rightarrow> jsval" where
  "prototype_of (Object proto props) = proto"
| "prototype_of (Array proto elems) = proto"
| "prototype_of v = Null"

text \<open>
  The property read \<^verbatim>\<open>v[k]\<close> on an object: \<open>lookup v holder k\<close> walks the prototype
  chain from \<open>holder\<close>. The first object that has the key as an own property gives the
  value, \<^verbatim>\<open>Object.prototype\<close> gives for \<^verbatim>\<open>__proto__\<close> the prototype of \<open>v\<close>, and the
  end of the chain gives \<^verbatim>\<open>undefined\<close>. The source reads a property only after
  \<^verbatim>\<open>isObject(v)\<close>.
\<close>

fun lookup :: "jsval \<Rightarrow> jsval \<Rightarrow> pkey \<Rightarrow> jsval" where
  "lookup v (Object proto props) k =
     (case map_of props k of
        Some (enumerable, x) \<Rightarrow> x
      | None \<Rightarrow> lookup v proto k)"
| "lookup v (Array proto elems) k =
     (case array_own elems k of
        Some x \<Rightarrow> x
      | None \<Rightarrow> lookup v proto k)"
| "lookup v Object_prototype (StrKey s) =
     (if s = ''__proto__'' then prototype_of v
      else case map_of Object_prototype_methods s of
             Some f \<Rightarrow> Function f
           | None \<Rightarrow> Undefined)"
| "lookup v holder k = Undefined"

definition get_property :: "jsval \<Rightarrow> pkey \<Rightarrow> jsval" where
  "get_property v k = lookup v v k"

text \<open>\<^verbatim>\<open>Object.hasOwn(v, k)\<close>: the key is an own property of the object.\<close>

fun has_own_property :: "jsval \<Rightarrow> pkey \<Rightarrow> bool" where
  "has_own_property (Object proto props) k = (map_of props k \<noteq> None)"
| "has_own_property (Array proto elems) k = (array_own elems k \<noteq> None)"
| "has_own_property Object_prototype (StrKey s) =
     (s = ''__proto__'' \<or> map_of Object_prototype_methods s \<noteq> None)"
| "has_own_property v k = False"

text \<open>Whether \<^verbatim>\<open>k in v\<close>: the key is found on the object or along its prototype chain.\<close>

fun has_property :: "jsval \<Rightarrow> pkey \<Rightarrow> bool" where
  "has_property (Object proto props) k = (map_of props k \<noteq> None \<or> has_property proto k)"
| "has_property (Array proto elems) k = (array_own elems k \<noteq> None \<or> has_property proto k)"
| "has_property v k = has_own_property v k"

text \<open>
  \<^verbatim>\<open>Object.keys(v)\<close> and \<^verbatim>\<open>Object.values(v)\<close>: the own enumerable string-keyed
  properties, in order. Symbol keys are not listed. On \<^verbatim>\<open>null\<close> and \<^verbatim>\<open>undefined\<close> both
  throw; the other primitives have no own enumerable property but the characters of a
  string. The source calls both only after \<^verbatim>\<open>isObject(v)\<close>.
\<close>

fun own_enumerable :: "(pkey \<times> bool \<times> jsval) list \<Rightarrow> (string \<times> jsval) list" where
  "own_enumerable [] = []"
| "own_enumerable ((StrKey s, enumerable, x) # props) =
     (if enumerable then (s, x) # own_enumerable props else own_enumerable props)"
| "own_enumerable ((SymKey n, enumerable, x) # props) = own_enumerable props"

fun Object_entries :: "jsval \<Rightarrow> error + (string \<times> jsval) list" where
  "Object_entries Undefined = Inl CannotConvertToObject"
| "Object_entries Null = Inl CannotConvertToObject"
| "Object_entries (Object proto props) = Inr (own_enumerable props)"
| "Object_entries (Array proto elems) = Inr (zip (map dec [0 ..< length elems]) elems)"
| "Object_entries (String s) = Inr (zip (map dec [0 ..< length s]) (map (\<lambda>c. String [c]) s))"
| "Object_entries v = Inr []"

definition Object_keys :: "jsval \<Rightarrow> error + jsval list" where
  "Object_keys v = map_sum id (map (String \<circ> fst)) (Object_entries v)"

definition Object_values :: "jsval \<Rightarrow> error + jsval list" where
  "Object_values v = map_sum id (map snd) (Object_entries v)"

subsection \<open>\<^verbatim>\<open>JSON.stringify\<close>\<close>

text \<open>
  \<^verbatim>\<open>QuoteJSONString\<close>: the double quote and the backslash are escaped, the control
  characters below \<open>0x20\<close> are written as \<^verbatim>\<open>\b \t \n \f \r\<close> or as \<^verbatim>\<open>\u00XX\<close>.
\<close>

definition quote_char :: "char \<Rightarrow> string" where
  "quote_char c =
     (if c = CHR 0x22 then [CHR 0x5C, CHR 0x22]
      else if c = CHR 0x5C then [CHR 0x5C, CHR 0x5C]
      else if c = CHR 0x08 then [CHR 0x5C, CHR ''b'']
      else if c = CHR 0x09 then [CHR 0x5C, CHR ''t'']
      else if c = CHR 0x0A then [CHR 0x5C, CHR ''n'']
      else if c = CHR 0x0C then [CHR 0x5C, CHR ''f'']
      else if c = CHR 0x0D then [CHR 0x5C, CHR ''r'']
      else if (of_char c :: nat) < 32
        then [CHR 0x5C, CHR ''u'', CHR ''0'', CHR ''0'',
              ''0123456789abcdef'' ! (of_char c div 16), ''0123456789abcdef'' ! (of_char c mod 16)]
      else [c])"

definition QuoteJSONString :: "string \<Rightarrow> string" where
  "QuoteJSONString s = [CHR 0x22] @ concat (map quote_char s) @ [CHR 0x22]"

text \<open>
  \<^verbatim>\<open>Number::toString\<close> on the numbers of the model: an integer of magnitude up to
  \<open>2^53\<close> is written in full.
\<close>

fun Number_toString :: "number \<Rightarrow> string" where
  "Number_toString NaN = ''NaN''"
| "Number_toString PosInfinity = ''Infinity''"
| "Number_toString NegInfinity = ''-Infinity''"
| "Number_toString (Finite w) =
     (if sint w < 0 then ''-'' @ dec (nat (- sint w)) else dec (nat (sint w)))"

fun join :: "string list \<Rightarrow> string" where
  "join [] = []"
| "join [s] = s"
| "join (s # t # ss) = s @ '','' @ join (t # ss)"

text \<open>
  \<^verbatim>\<open>JSON.stringify(v)\<close> with one argument, after \<^verbatim>\<open>SerializeJSONProperty\<close>,
  \<^verbatim>\<open>SerializeJSONObject\<close> and \<^verbatim>\<open>SerializeJSONArray\<close> of the language standard. The
  result is a string, or \<^verbatim>\<open>undefined\<close> (\<open>None\<close>) for \<^verbatim>\<open>undefined\<close>, a function and a
  symbol. A BigInt throws a \<^verbatim>\<open>TypeError\<close>. For an object whose \<^verbatim>\<open>toJSON\<close> property is
  a function, the function is called with the key under which the object stands, and
  the host gives the outcome. Any other object is written with its own enumerable
  string-keyed properties in order, leaving out those whose value has no rendering; an
  array writes \<^verbatim>\<open>null\<close> for such an element.
\<close>

fun SerializeJSONProperty :: "host \<Rightarrow> string \<Rightarrow> jsval \<Rightarrow> error + string option"
  and SerializeJSONObject :: "host \<Rightarrow> (pkey \<times> bool \<times> jsval) list \<Rightarrow> error + string list"
  and SerializeJSONArray :: "host \<Rightarrow> nat \<Rightarrow> jsval list \<Rightarrow> error + string list" where
  "SerializeJSONProperty h key Undefined = Inr None"
| "SerializeJSONProperty h key Null = Inr (Some ''null'')"
| "SerializeJSONProperty h key (Boolean b) = Inr (Some (if b then ''true'' else ''false''))"
| "SerializeJSONProperty h key (Number n) =
     Inr (Some (case n of Finite w \<Rightarrow> Number_toString n | _ \<Rightarrow> ''null''))"
| "SerializeJSONProperty h key (BigInt i) = Inl CannotSerializeBigInt"
| "SerializeJSONProperty h key (String s) = Inr (Some (QuoteJSONString s))"
| "SerializeJSONProperty h key (Symbol n) = Inr None"
| "SerializeJSONProperty h key (Function f) = Inr None"
| "SerializeJSONProperty h key Object_prototype = Inr (Some ''{}'')"
| "SerializeJSONProperty h key (Object proto props) =
     (case get_property (Object proto props) (StrKey ''toJSON'') of
        Function f \<Rightarrow> toJSON_result h f (Object proto props) key
      | _ \<Rightarrow>
          (case SerializeJSONObject h props of
             Inl e \<Rightarrow> Inl e
           | Inr members \<Rightarrow> Inr (Some (''{'' @ join members @ ''}''))))"
| "SerializeJSONProperty h key (Array proto elems) =
     (case get_property (Array proto elems) (StrKey ''toJSON'') of
        Function f \<Rightarrow> toJSON_result h f (Array proto elems) key
      | _ \<Rightarrow>
          (case SerializeJSONArray h 0 elems of
             Inl e \<Rightarrow> Inl e
           | Inr items \<Rightarrow> Inr (Some (''['' @ join items @ '']''))))"
| "SerializeJSONObject h [] = Inr []"
| "SerializeJSONObject h ((StrKey k, enumerable, x) # props) =
     (if enumerable then
        (case SerializeJSONProperty h k x of
           Inl e \<Rightarrow> Inl e
         | Inr r \<Rightarrow>
             (case SerializeJSONObject h props of
                Inl e \<Rightarrow> Inl e
              | Inr members \<Rightarrow>
                  Inr (case r of
                         None \<Rightarrow> members
                       | Some str \<Rightarrow> (QuoteJSONString k @ '':'' @ str) # members)))
      else SerializeJSONObject h props)"
| "SerializeJSONObject h ((SymKey n, enumerable, x) # props) = SerializeJSONObject h props"
| "SerializeJSONArray h i [] = Inr []"
| "SerializeJSONArray h i (x # elems) =
     (case SerializeJSONProperty h (dec i) x of
        Inl e \<Rightarrow> Inl e
      | Inr r \<Rightarrow>
          (case SerializeJSONArray h (Suc i) elems of
             Inl e \<Rightarrow> Inl e
           | Inr items \<Rightarrow> Inr ((case r of None \<Rightarrow> ''null'' | Some str \<Rightarrow> str) # items)))"

definition JSON_stringify :: "host \<Rightarrow> jsval \<Rightarrow> error + string option" where
  "JSON_stringify h v = SerializeJSONProperty h [] v"

text \<open>A template literal \<^verbatim>\<open>${x}\<close> on what \<^verbatim>\<open>JSON.stringify\<close> returned.\<close>

fun template :: "string option \<Rightarrow> string" where
  "template None = ''undefined''"
| "template (Some s) = s"

subsection \<open>Regular expressions\<close>

text \<open>
  The constructs of the one regular expression of the source. \<^verbatim>\<open>test\<close> on a pattern
  between \<^verbatim>\<open>^\<close> and \<^verbatim>\<open>$\<close> (no flags) asks whether the whole string matches; it is
  decided by taking the derivative of the pattern by each character in turn.
\<close>

datatype regex =
    Never
  | Empty
  | OneOf string
  | Seq regex regex
  | Alt regex regex
  | Opt regex
  | Plus regex
  | Star regex

fun matches_empty :: "regex \<Rightarrow> bool" where
  "matches_empty Never = False"
| "matches_empty Empty = True"
| "matches_empty (OneOf cs) = False"
| "matches_empty (Seq r s) = (matches_empty r \<and> matches_empty s)"
| "matches_empty (Alt r s) = (matches_empty r \<or> matches_empty s)"
| "matches_empty (Opt r) = True"
| "matches_empty (Plus r) = matches_empty r"
| "matches_empty (Star r) = True"

fun deriv :: "char \<Rightarrow> regex \<Rightarrow> regex" where
  "deriv c Never = Never"
| "deriv c Empty = Never"
| "deriv c (OneOf cs) = (if c \<in> set cs then Empty else Never)"
| "deriv c (Seq r s) =
     (if matches_empty r then Alt (Seq (deriv c r) s) (deriv c s) else Seq (deriv c r) s)"
| "deriv c (Alt r s) = Alt (deriv c r) (deriv c s)"
| "deriv c (Opt r) = deriv c r"
| "deriv c (Plus r) = Seq (deriv c r) (Star r)"
| "deriv c (Star r) = Seq (deriv c r) (Star r)"

fun regex_test :: "regex \<Rightarrow> string \<Rightarrow> bool" where
  "regex_test r [] = matches_empty r"
| "regex_test r (c # s) = regex_test (deriv c r) s"

text \<open>
  The strings a pattern matches, and the numeric literals in the words of the
  specification: an optional leading minus, one or more digits, an optional decimal
  fraction (a dot and one or more digits), an optional exponent (\<open>e\<close>, an optional
  minus, one or more digits).
\<close>

inductive_set repeat :: "string set \<Rightarrow> string set" for A :: "string set" where
  repeat_none: "[] \<in> repeat A"
| repeat_more: "u \<in> A \<Longrightarrow> w \<in> repeat A \<Longrightarrow> u @ w \<in> repeat A"

definition cat :: "string set \<Rightarrow> string set \<Rightarrow> string set" where
  "cat A B = {u @ w | u w. u \<in> A \<and> w \<in> B}"

fun lang :: "regex \<Rightarrow> string set" where
  "lang Never = {}"
| "lang Empty = {[]}"
| "lang (OneOf cs) = {[c] | c. c \<in> set cs}"
| "lang (Seq r s) = cat (lang r) (lang s)"
| "lang (Alt r s) = lang r \<union> lang s"
| "lang (Opt r) = insert [] (lang r)"
| "lang (Plus r) = cat (lang r) (repeat (lang r))"
| "lang (Star r) = repeat (lang r)"

definition digit_strings :: "string set" where
  "digit_strings = {ds. ds \<noteq> [] \<and> set ds \<subseteq> set ''0123456789''}"

definition numeric_literal :: "string \<Rightarrow> bool" where
  "numeric_literal s \<longleftrightarrow>
     (\<exists>sign whole fraction exponent.
        s = sign @ whole @ fraction @ exponent
        \<and> (sign = [] \<or> sign = ''-'')
        \<and> whole \<in> digit_strings
        \<and> (fraction = [] \<or> (\<exists>ds. ds \<in> digit_strings \<and> fraction = ''.'' @ ds))
        \<and> (exponent = [] \<or>
             (\<exists>minus ds. (minus = [] \<or> minus = ''-'') \<and> ds \<in> digit_strings
                \<and> exponent = ''e'' @ minus @ ds)))"

section \<open>The checkers of \<^verbatim>\<open>TypeChecker.ts\<close>\<close>

text \<open>Running the next step on the value a step returned, unless it threw.\<close>

definition and_then :: "error + 'a \<Rightarrow> ('a \<Rightarrow> error + 'b) \<Rightarrow> error + 'b" where
  "and_then m f = (case m of Inl e \<Rightarrow> Inl e | Inr x \<Rightarrow> f x)"

subsection \<open>\<^verbatim>\<open>TypeChecker.cast\<close>\<close>

text \<open>
  \<^verbatim>\<open>expectedTypeName?: string\<close> is \<open>None\<close> when the argument is left out. The condition
  \<^verbatim>\<open>expectedTypeName ? ... : ...\<close> is false for \<^verbatim>\<open>undefined\<close> and for the empty string.
  The body of \<^verbatim>\<open>cast\<close> reads the value only through the checker and through
  \<^verbatim>\<open>JSON.stringify\<close>: \<open>cast_with\<close> is that body for any \<open>stringify\<close>, over any
  representation of the values, and \<open>cast\<close> is the body with \<^verbatim>\<open>JSON.stringify\<close>.
\<close>

definition cast_with ::
  "('v \<Rightarrow> error + string option) \<Rightarrow> ('v \<Rightarrow> error + bool) \<Rightarrow> string option \<Rightarrow> 'v \<Rightarrow> error + 'v" where
  "cast_with stringify checker expectedTypeName v =
     and_then (checker v) (\<lambda>accepted.
       if \<not> accepted then
         (case expectedTypeName of
            Some name \<Rightarrow>
              if name \<noteq> [] then
                and_then (stringify v) (\<lambda>json.
                  Inl (TypeError (''value '' @ template json @ '' is not of type '' @ name)))
              else
                and_then (stringify v) (\<lambda>json.
                  Inl (TypeError (''value '' @ template json @ '' is of an invalid type'')))
          | None \<Rightarrow>
              and_then (stringify v) (\<lambda>json.
                Inl (TypeError (''value '' @ template json @ '' is of an invalid type''))))
       else Inr v)"

definition cast :: "host \<Rightarrow> checker \<Rightarrow> string option \<Rightarrow> jsval \<Rightarrow> error + jsval" where
  "cast h = cast_with (JSON_stringify h)"

subsection \<open>Basic and primitive types\<close>

definition isNever :: checker where
  "isNever val = Inr False"

definition isAny :: checker where
  "isAny val = Inr True"

definition isBigint :: checker where
  "isBigint v = Inr (typeof v = ''bigint'')"

definition isBoolean :: checker where
  "isBoolean v = Inr (typeof v = ''boolean'')"

definition isFunction :: checker where
  "isFunction v = Inr (typeof v = ''function'')"

definition isNull :: checker where
  "isNull v = Inr (v = Null)"

definition isNumber :: checker where
  "isNumber v = Inr (typeof v = ''number'')"

definition isObject :: checker where
  "isObject v = Inr (typeof v = ''object'' \<and> v \<noteq> Null)"

definition isString :: checker where
  "isString v = Inr (typeof v = ''string'')"

definition isSymbol :: checker where
  "isSymbol v = Inr (typeof v = ''symbol'')"

definition isUndefined :: checker where
  "isUndefined v = Inr (v = Undefined)"

subsection \<open>Connectives\<close>

text \<open>
  \<^verbatim>\<open>for (const checker of checkers) { if (checker(v)) return true; } return false;\<close>
\<close>

fun getUnionOf :: "checker list \<Rightarrow> checker" where
  "getUnionOf [] v = Inr False"
| "getUnionOf (checker # checkers) v =
     (case checker v of
        Inl e \<Rightarrow> Inl e
      | Inr b \<Rightarrow> if b then Inr True else getUnionOf checkers v)"

text \<open>
  \<^verbatim>\<open>v => checkers.every(c => v(c))\<close>: the callback calls the value under test with
  the checker as its argument.
\<close>

definition getIntersectionOf :: "host \<Rightarrow> checker list \<Rightarrow> checker" where
  "getIntersectionOf h checkers v =
     every (\<lambda>c. map_sum id to_boolean (call_value h v c)) checkers"

subsection \<open>Higher order\<close>

text \<open>
  A \<^verbatim>\<open>Record<string, TypeChecker>\<close> is the list of its entries in the order in which
  \<^verbatim>\<open>for ... in\<close> enumerates its keys; \<^verbatim>\<open>mapping[k]\<close> is the lookup in it. The loop of
  \<^verbatim>\<open>getMappedChecker\<close>:
  \<^verbatim>\<open>for (const k in mapping) { if (!mapping[k](v[k])) return false; } return true;\<close>
\<close>

fun check_keys :: "(string \<times> checker) list \<Rightarrow> string list \<Rightarrow> checker" where
  "check_keys mapping [] v = Inr True"
| "check_keys mapping (k # ks) v =
     (case map_of mapping k of
        None \<Rightarrow> Inl NotAFunction
      | Some c \<Rightarrow>
          and_then (c (get_property v (StrKey k)))
            (\<lambda>b. if \<not> b then Inr False else check_keys mapping ks v))"

definition getMappedChecker :: "(string \<times> checker) list \<Rightarrow> checker" where
  "getMappedChecker mapping v =
     and_then (isObject v)
       (\<lambda>b. if \<not> b then Inr False else check_keys mapping (map fst mapping) v)"

text \<open>
  \<^verbatim>\<open>v => isObject(v) && Object.keys(v).every(keyChecker) && Object.values(v).every(valueChecker)\<close>
  (\<^verbatim>\<open>every\<close> also passes the index and the array; a checker reads its first argument
  only.)
\<close>

definition getRecordChecker :: "checker \<Rightarrow> checker \<Rightarrow> checker" where
  "getRecordChecker keyChecker valueChecker v =
     and_then (isObject v) (\<lambda>b. if \<not> b then Inr False else
     and_then (Object_keys v) (\<lambda>keys.
     and_then (every keyChecker keys) (\<lambda>b. if \<not> b then Inr False else
     and_then (Object_values v) (\<lambda>vals.
     every valueChecker vals))))"

text \<open>
  Strict equality \<^verbatim>\<open>===\<close> with a string, boolean, number or bigint on the left: the
  same value, except that \<^verbatim>\<open>NaN\<close> is not equal to itself.
\<close>

definition strict_equals :: "jsval \<Rightarrow> jsval \<Rightarrow> bool" where
  "strict_equals x v = (x = v \<and> x \<noteq> Number NaN)"

text \<open>\<^verbatim>\<open>v => v === expected\<close>, for a string, boolean, number or bigint \<open>expected\<close>.\<close>

definition getLiteralChecker :: "jsval \<Rightarrow> checker" where
  "getLiteralChecker expected v = Inr (strict_equals expected v)"

subsection \<open>Other\<close>

text \<open>\<^verbatim>\<open>const NUMBER_REGEX = /^-?[0-9]+(\.[0-9]+)?(e-?[0-9]+)?$/;\<close>\<close>

definition NUMBER_REGEX :: regex where
  "NUMBER_REGEX =
     Seq (Opt (OneOf ''-''))
    (Seq (Plus (OneOf ''0123456789''))
    (Seq (Opt (Seq (OneOf ''.'') (Plus (OneOf ''0123456789''))))
         (Opt (Seq (OneOf ''e'') (Seq (Opt (OneOf ''-'')) (Plus (OneOf ''0123456789'')))))))"

text \<open>
  \<^verbatim>\<open>type Enum = Record<string, string | number>\<close>: the list of the entries of the enum
  object, in the order of \<^verbatim>\<open>Object.keys\<close>; \<^verbatim>\<open>enumType[k]\<close> is the lookup in it.
\<close>

datatype enum_value = EnumString string | EnumNumber number

fun enum_jsval :: "enum_value \<Rightarrow> jsval" where
  "enum_jsval (EnumString s) = String s"
| "enum_jsval (EnumNumber n) = Number n"

text \<open>
  \<^verbatim>\<open>Array.prototype.includes\<close> compares with \<^verbatim>\<open>SameValueZero\<close>: on strings, numbers
  and \<^verbatim>\<open>undefined\<close> that is being the same value, \<^verbatim>\<open>NaN\<close> included.
\<close>

definition Array_includes :: "jsval list \<Rightarrow> jsval \<Rightarrow> bool" where
  "Array_includes values v = (v \<in> set values)"

text \<open>
  \<^verbatim>\<open>Object.keys(enumType).filter(k => !NUMBER_REGEX.test(k)).map(k => enumType[k])\<close>
\<close>

definition enum_values :: "(string \<times> enum_value) list \<Rightarrow> jsval list" where
  "enum_values enumType =
     map (\<lambda>k. case map_of enumType k of Some x \<Rightarrow> enum_jsval x | None \<Rightarrow> Undefined)
       (filter (\<lambda>k. \<not> regex_test NUMBER_REGEX k) (map fst enumType))"

definition getEnumChecker :: "(string \<times> enum_value) list \<Rightarrow> checker" where
  "getEnumChecker enumType v = Inr (Array_includes (enum_values enumType) v)"

text \<open>
  \<^verbatim>\<open>getArrayChecker\<close> calls the method \<^verbatim>\<open>every\<close> that it finds on the value, and
  \<^verbatim>\<open>getInstanceChecker\<close> compares prototype objects by identity, which the tree model
  of values does not have; they are not modelled.

  \<^verbatim>\<open>(v: any) => v === null || checker(v)\<close>
\<close>

definition nullable :: "checker \<Rightarrow> checker" where
  "nullable checker v = (if v = Null then Inr True else checker v)"

subsection \<open>Values of the examples\<close>

text \<open>
  The object literal \<^verbatim>\<open>{k1: x1, ...}\<close>, with keys other than \<^verbatim>\<open>__proto__\<close>: its
  prototype is \<^verbatim>\<open>Object.prototype\<close> and every property is enumerable.
\<close>

definition literal :: "(string \<times> jsval) list \<Rightarrow> jsval" where
  "literal entries = Object Object_prototype (map (\<lambda>(k, x). (StrKey k, True, x)) entries)"

text \<open>A host in which every function returns \<^verbatim>\<open>undefined\<close>.\<close>

definition example_host :: host where
  "example_host =
     \<lparr>call_function = (\<lambda>f c. Inr Undefined), toJSON_result = (\<lambda>f this key. Inr None)\<rparr>"

text \<open>
  The enum \<^verbatim>\<open>enum Colour { Red, Green }\<close> at run time:
  \<^verbatim>\<open>{"0": "Red", "1": "Green", Red: 0, Green: 1}\<close>.
\<close>

definition Colour :: "(string \<times> enum_value) list" where
  "Colour =
     [(''0'', EnumString ''Red''), (''1'', EnumString ''Green''),
      (''Red'', EnumNumber (Finite 0)), (''Green'', EnumNumber (Finite 1))]"

subsection \<open>The primitive categories\<close>

text \<open>
  The nine primitive categories of the specification, the category of a value, and the
  exported checker of each category.
\<close>

datatype category =
  CBigint | CBoolean | CFunction | CNull | CNumber | CObject | CString | CSymbol | CUndefined

fun category_of :: "jsval \<Rightarrow> category" where
  "category_of Undefined = CUndefined"
| "category_of Null = CNull"
| "category_of (Boolean b) = CBoolean"
| "category_of (Number n) = CNumber"
| "category_of (BigInt i) = CBigint"
| "category_of (String s) = CString"
| "category_of (Symbol n) = CSymbol"
| "category_of (Function f) = CFunction"
| "category_of Object_prototype = CObject"
| "category_of (Object proto props) = CObject"
| "category_of (Array proto elems) = CObject"

fun primitive_checker :: "category \<Rightarrow> checker" where
  "primitive_checker CBigint = isBigint"
| "primitive_checker CBoolean = isBoolean"
| "primitive_checker CFunction = isFunction"
| "primitive_checker CNull = isNull"
| "primitive_checker CNumber = isNumber"
| "primitive_checker CObject = isObject"
| "primitive_checker CString = isString"
| "primitive_checker CSymbol = isSymbol"
| "primitive_checker CUndefined = isUndefined"

section \<open>Properties\<close>

subsection \<open>Auxiliary facts\<close>

lemma and_then_simps [simp]:
  "and_then (Inl e) f = Inl e"
  "and_then (Inr x) f = f x"
  by (simp_all add: and_then_def)

lemma check_keys_true_iff:
  "check_keys m ks v = Inr True \<longleftrightarrow>
     (\<forall>k\<in>set ks. \<exists>c. map_of m k = Some c \<and> c (get_property v (StrKey k)) = Inr True)"
proof (induction ks)
  case Nil
  show ?case by simp
next
  case (Cons k ks)
  show ?case
  proof (cases "map_of m k")
    case None
    then show ?thesis by simp
  next
    case (Some c)
    show ?thesis
    proof (cases "c (get_property v (StrKey k))")
      case (Inl e)
      with Some show ?thesis by simp
    next
      case (Inr b)
      with Some Cons.IH show ?thesis by (cases b) simp_all
    qed
  qed
qed

lemma check_keys_total:
  "\<forall>k\<in>set ks. \<exists>c b. map_of m k = Some c \<and> c (get_property v (StrKey k)) = Inr b
     \<Longrightarrow> \<exists>b. check_keys m ks v = Inr b"
proof (induction ks)
  case Nil
  show ?case by (rule exI [of _ True]) simp
next
  case (Cons k ks)
  then obtain c b where "map_of m k = Some c" "c (get_property v (StrKey k)) = Inr b"
    by auto
  moreover from Cons obtain b' where "check_keys m ks v = Inr b'"
    by auto
  ultimately have "check_keys m (k # ks) v = Inr (b \<and> b')"
    by (cases b) simp_all
  then show ?case
    by (rule exI)
qed

lemma check_keys_cong:
  "\<forall>k\<in>set ks. get_property v' (StrKey k) = get_property v (StrKey k)
     \<Longrightarrow> check_keys m ks v' = check_keys m ks v"
proof (induction ks)
  case Nil
  show ?case by simp
next
  case (Cons k ks)
  then have "get_property v' (StrKey k) = get_property v (StrKey k)"
    and "check_keys m ks v' = check_keys m ks v"
    by simp_all
  then show ?case
    by (cases "map_of m k") (simp_all cong: if_cong)
qed

lemma map_of_fst_Some: "k \<in> fst ` set m \<Longrightarrow> \<exists>c. map_of m k = Some c"
  by (induction m) auto

lemma lookup_absent: "\<not> has_property holder k \<Longrightarrow> lookup v holder k = Undefined"
  by (induction v holder k rule: lookup.induct) (auto split: option.splits)

lemma get_property_absent: "\<not> has_property v k \<Longrightarrow> get_property v k = Undefined"
  by (simp add: get_property_def lookup_absent)

lemma lookup_receiver:
  "k \<noteq> StrKey ''__proto__'' \<Longrightarrow> lookup v holder k = lookup v' holder k"
  by (induction v holder k rule: lookup.induct) (auto split: option.splits)

lemma get_property_inherited:
  assumes "isObject v = Inr True" and "\<not> has_own_property v (StrKey k)" and "k \<noteq> ''__proto__''"
  shows "get_property v (StrKey k) = get_property (prototype_of v) (StrKey k)"
proof -
  have recv: "lookup v holder (StrKey k) = lookup holder holder (StrKey k)" for holder
    using assms(3) by (intro lookup_receiver) simp
  show ?thesis
  proof (cases v)
    case (Object proto props)
    with assms(2) have "get_property v (StrKey k) = lookup v proto (StrKey k)"
      by (auto simp: get_property_def split: option.splits)
    also have "\<dots> = lookup proto proto (StrKey k)"
      by (rule recv)
    finally show ?thesis
      using Object by (simp add: get_property_def)
  next
    case (Array proto elems)
    with assms(2) have "get_property v (StrKey k) = lookup v proto (StrKey k)"
      by (simp add: get_property_def split: if_splits)
    also have "\<dots> = lookup proto proto (StrKey k)"
      by (rule recv)
    finally show ?thesis
      using Array by (simp add: get_property_def)
  next
    case Object_prototype
    with assms(2) show ?thesis
      by (simp add: get_property_def)
  qed (use assms(1) in \<open>simp_all add: isObject_def\<close>)
qed

lemma get_property_own:
  "map_of props k = Some (enumerable, x) \<Longrightarrow> get_property (Object proto props) k = x"
  by (simp add: get_property_def)


lemma getIntersectionOf_Cons:
  "typeof v \<noteq> ''function'' \<Longrightarrow> getIntersectionOf h (c # cs) v = Inl NotAFunction"
  by (cases v) (simp_all add: getIntersectionOf_def)

lemma getUnionOf_total:
  "\<forall>c\<in>set cs. \<exists>b. c v = Inr b \<Longrightarrow> getUnionOf cs v = Inr (\<exists>c\<in>set cs. c v = Inr True)"
proof (induction cs)
  case Nil
  show ?case by simp
next
  case (Cons c cs)
  then obtain b where "c v = Inr b"
    by auto
  with Cons show ?case
    by (cases b) simp_all
qed

lemma getUnionOf_first_success:
  "\<forall>d\<in>set pre. d v = Inr False \<Longrightarrow> c v = Inr True \<Longrightarrow> getUnionOf (pre @ c # post) v = Inr True"
  by (induction pre) simp_all

lemma getUnionOf_true_split:
  "getUnionOf cs v = Inr True \<Longrightarrow>
     \<exists>pre c post. cs = pre @ c # post \<and> (\<forall>d\<in>set pre. d v = Inr False) \<and> c v = Inr True"
proof (induction cs)
  case Nil
  then show ?case by simp
next
  case (Cons a cs)
  show ?case
  proof (cases "a v")
    case (Inl e)
    with Cons.prems show ?thesis by simp
  next
    case (Inr b)
    show ?thesis
    proof (cases b)
      case True
      with Inr have "a # cs = [] @ a # cs \<and> (\<forall>d\<in>set []. d v = Inr False) \<and> a v = Inr True"
        by simp
      then show ?thesis by blast
    next
      case False
      with Inr Cons.prems have "getUnionOf cs v = Inr True"
        by simp
      then obtain pre c post where
        "cs = pre @ c # post" "\<forall>d\<in>set pre. d v = Inr False" "c v = Inr True"
        using Cons.IH by blast
      with Inr False have
        "a # cs = (a # pre) @ c # post \<and> (\<forall>d\<in>set (a # pre). d v = Inr False) \<and> c v = Inr True"
        by simp
      then show ?thesis by blast
    qed
  qed
qed

lemma primitive_checker_category: "primitive_checker k v = Inr (category_of v = k)"
  by (cases k; cases v)
    (simp_all add: isBigint_def isBoolean_def isFunction_def isNull_def isNumber_def
      isObject_def isString_def isSymbol_def isUndefined_def)

lemma dec_digit: "n < 10 \<Longrightarrow> dec n = [''0123456789'' ! n]"
  by (simp add: dec.simps)

lemma every_cong_on: "\<forall>x\<in>set xs. p x = q x \<Longrightarrow> every p xs = every q xs"
  by (induction xs) (simp_all cong: if_cong sum.case_cong)

lemma Object_keys_strings: "Object_keys v = Inr ks \<Longrightarrow> \<forall>k\<in>set ks. \<exists>s. k = String s"
  by (cases "Object_entries v") (auto simp: Object_keys_def)

lemma Object_keys_values_Nil: "Object_keys v = Inr [] \<Longrightarrow> Object_values v = Inr []"
  by (cases "Object_entries v") (auto simp: Object_keys_def Object_values_def)

lemma enum_values_set:
  "v \<in> set (enum_values enumType) \<longleftrightarrow>
     (\<exists>k x. map_of enumType k = Some x \<and> \<not> regex_test NUMBER_REGEX k \<and> enum_jsval x = v)"
proof
  assume "v \<in> set (enum_values enumType)"
  then obtain k where k: "k \<in> fst ` set enumType" "\<not> regex_test NUMBER_REGEX k"
    and v: "v = (case map_of enumType k of Some x \<Rightarrow> enum_jsval x | None \<Rightarrow> Undefined)"
    by (auto simp: enum_values_def)
  from k(1) obtain x where "map_of enumType k = Some x"
    using map_of_fst_Some [of k enumType] by auto
  with k v show "\<exists>k x. map_of enumType k = Some x \<and> \<not> regex_test NUMBER_REGEX k \<and> enum_jsval x = v"
    by auto
next
  assume "\<exists>k x. map_of enumType k = Some x \<and> \<not> regex_test NUMBER_REGEX k \<and> enum_jsval x = v"
  then obtain k x where kx: "map_of enumType k = Some x" "\<not> regex_test NUMBER_REGEX k" "enum_jsval x = v"
    by blast
  then have "k \<in> fst ` set enumType"
    by (auto dest: map_of_SomeD intro: rev_image_eqI)
  with kx show "v \<in> set (enum_values enumType)"
    by (force simp: enum_values_def)
qed

lemma cat_Nil: "[] \<in> cat A B \<longleftrightarrow> [] \<in> A \<and> [] \<in> B"
  by (auto simp: cat_def)

lemma cat_Cons:
  "c # w \<in> cat A B \<longleftrightarrow>
     (\<exists>u w'. c # u \<in> A \<and> w' \<in> B \<and> w = u @ w') \<or> ([] \<in> A \<and> c # w \<in> B)"
proof
  assume "c # w \<in> cat A B"
  then obtain u w' where uw: "c # w = u @ w'" "u \<in> A" "w' \<in> B"
    by (auto simp: cat_def)
  show "(\<exists>u w'. c # u \<in> A \<and> w' \<in> B \<and> w = u @ w') \<or> ([] \<in> A \<and> c # w \<in> B)"
  proof (cases u)
    case Nil
    with uw show ?thesis by simp
  next
    case (Cons a u')
    with uw have "c # u' \<in> A" "w = u' @ w'"
      by simp_all
    with uw(3) show ?thesis by blast
  qed
next
  assume "(\<exists>u w'. c # u \<in> A \<and> w' \<in> B \<and> w = u @ w') \<or> ([] \<in> A \<and> c # w \<in> B)"
  then show "c # w \<in> cat A B"
  proof
    assume "\<exists>u w'. c # u \<in> A \<and> w' \<in> B \<and> w = u @ w'"
    then obtain u w' where "c # u \<in> A" "w' \<in> B" "w = u @ w'"
      by blast
    then have "c # w = (c # u) @ w' \<and> c # u \<in> A \<and> w' \<in> B"
      by simp
    then show ?thesis
      unfolding cat_def by blast
  next
    assume "[] \<in> A \<and> c # w \<in> B"
    then have "c # w = [] @ (c # w) \<and> [] \<in> A \<and> c # w \<in> B"
      by simp
    then show ?thesis
      unfolding cat_def by blast
  qed
qed

lemma repeat_Cons_split:
  "x \<in> repeat A \<Longrightarrow> x = c # w \<Longrightarrow> \<exists>u w'. c # u \<in> A \<and> w' \<in> repeat A \<and> w = u @ w'"
proof (induction arbitrary: w rule: repeat.induct)
  case repeat_none
  then show ?case by simp
next
  case (repeat_more u v)
  show ?case
  proof (cases u)
    case Nil
    with repeat_more show ?thesis by simp
  next
    case (Cons a u')
    with repeat_more.prems have "c # u' = u" "w = u' @ v"
      by simp_all
    with repeat_more.hyps show ?thesis by blast
  qed
qed

lemma repeat_Cons:
  "c # w \<in> repeat A \<longleftrightarrow> (\<exists>u w'. c # u \<in> A \<and> w' \<in> repeat A \<and> w = u @ w')"
proof
  assume "c # w \<in> repeat A"
  then show "\<exists>u w'. c # u \<in> A \<and> w' \<in> repeat A \<and> w = u @ w'"
    by (rule repeat_Cons_split) simp
next
  assume "\<exists>u w'. c # u \<in> A \<and> w' \<in> repeat A \<and> w = u @ w'"
  then obtain u w' where "c # u \<in> A" "w' \<in> repeat A" "w = u @ w'"
    by blast
  then show "c # w \<in> repeat A"
    using repeat_more [of "c # u" A w'] by simp
qed

lemma matches_empty_lang: "matches_empty r \<longleftrightarrow> [] \<in> lang r"
  by (induction r) (auto simp: cat_Nil intro: repeat_none)

lemma lang_deriv: "lang (deriv c r) = {w. c # w \<in> lang r}"
proof (induction r)
  case (Seq r s)
  then show ?case
    by (auto simp: cat_Cons matches_empty_lang) (auto simp: cat_def)
next
  case (Plus r)
  then show ?case
    by (auto simp: cat_Cons repeat_Cons) (auto simp: cat_def)
next
  case (Star r)
  then show ?case
    by (auto simp: repeat_Cons) (auto simp: cat_def)
qed auto

lemma regex_test_lang: "regex_test r s \<longleftrightarrow> s \<in> lang r"
  by (induction s arbitrary: r) (simp_all add: matches_empty_lang lang_deriv)

lemma repeat_chars: "w \<in> repeat {[c] | c. c \<in> D} \<longleftrightarrow> set w \<subseteq> D"
proof (induction w)
  case Nil
  show ?case by (simp add: repeat_none)
next
  case (Cons a w)
  show ?case
    by (auto simp: repeat_Cons Cons)
qed

lemma lang_digits: "lang (Plus (OneOf ''0123456789'')) = digit_strings"
proof (rule set_eqI)
  fix w
  show "w \<in> lang (Plus (OneOf ''0123456789'')) \<longleftrightarrow> w \<in> digit_strings"
  proof (cases w)
    case Nil
    then show ?thesis
      by (simp add: cat_Nil digit_strings_def)
  next
    case (Cons a w')
    have "w' \<in> repeat {[c] | c. c \<in> set ''0123456789''} \<longleftrightarrow> set w' \<subseteq> set ''0123456789''"
      by (rule repeat_chars)
    with Cons show ?thesis
      by (auto simp: cat_Cons digit_strings_def)
  qed
qed

lemma lang_NUMBER_REGEX:
  "lang NUMBER_REGEX =
     cat (insert [] {''-''})
    (cat digit_strings
    (cat (insert [] (cat {''.''} digit_strings))
         (insert [] (cat {''e''} (cat (insert [] {''-''}) digit_strings)))))"
proof -
  have "lang (Plus (OneOf ''0123456789'')) = digit_strings"
    by (rule lang_digits)
  then show ?thesis
    unfolding NUMBER_REGEX_def lang.simps(4,6) by simp
qed


lemma cat_iff: "x \<in> cat A B \<longleftrightarrow> (\<exists>u w. x = u @ w \<and> u \<in> A \<and> w \<in> B)"
  unfolding cat_def by blast

lemma in_fraction:
  "x \<in> insert [] (cat {''.''} D) \<longleftrightarrow> x = [] \<or> (\<exists>ds. ds \<in> D \<and> x = ''.'' @ ds)"
  by (auto simp: cat_iff)

lemma in_exponent:
  "x \<in> insert [] (cat {''e''} (cat (insert [] {''-''}) D)) \<longleftrightarrow>
     x = [] \<or> (\<exists>minus ds. (minus = [] \<or> minus = ''-'') \<and> ds \<in> D \<and> x = ''e'' @ minus @ ds)"
proof -
  have "y \<in> cat (insert [] {''-''}) D \<longleftrightarrow>
      (\<exists>minus ds. (minus = [] \<or> minus = ''-'') \<and> ds \<in> D \<and> y = minus @ ds)" for y
    unfolding cat_iff by blast
  then have "x \<in> cat {''e''} (cat (insert [] {''-''}) D) \<longleftrightarrow>
      (\<exists>minus ds. (minus = [] \<or> minus = ''-'') \<and> ds \<in> D \<and> x = ''e'' @ minus @ ds)"
    unfolding cat_iff [of x] by blast
  then show ?thesis
    by blast
qed

lemma NUMBER_REGEX_numeric_literal: "regex_test NUMBER_REGEX s \<longleftrightarrow> numeric_literal s"
proof -
  let ?F = "insert [] (cat {''.''} digit_strings)"
  let ?E = "insert [] (cat {''e''} (cat (insert [] {''-''}) digit_strings))"
  have "regex_test NUMBER_REGEX s \<longleftrightarrow>
      s \<in> cat (insert [] {''-''}) (cat digit_strings (cat ?F ?E))"
    by (simp only: regex_test_lang lang_NUMBER_REGEX)
  also have "\<dots> \<longleftrightarrow>
      (\<exists>sign whole fraction exponent.
        s = sign @ whole @ fraction @ exponent
        \<and> sign \<in> insert [] {''-''} \<and> whole \<in> digit_strings \<and> fraction \<in> ?F \<and> exponent \<in> ?E)"
  proof
    assume "s \<in> cat (insert [] {''-''}) (cat digit_strings (cat ?F ?E))"
    then obtain sign r1 where 1: "s = sign @ r1" "sign \<in> insert [] {''-''}"
      and "r1 \<in> cat digit_strings (cat ?F ?E)"
      unfolding cat_iff [of s] by blast
    then obtain whole r2 where 2: "r1 = whole @ r2" "whole \<in> digit_strings"
      and "r2 \<in> cat ?F ?E"
      unfolding cat_iff [of r1] by blast
    then obtain fraction exponent where 3: "r2 = fraction @ exponent" "fraction \<in> ?F" "exponent \<in> ?E"
      unfolding cat_iff [of r2] by blast
    from 1 2 3 have "s = sign @ whole @ fraction @ exponent"
      by simp
    with 1 2 3 show "\<exists>sign whole fraction exponent.
        s = sign @ whole @ fraction @ exponent
        \<and> sign \<in> insert [] {''-''} \<and> whole \<in> digit_strings \<and> fraction \<in> ?F \<and> exponent \<in> ?E"
      by blast
  next
    assume "\<exists>sign whole fraction exponent.
        s = sign @ whole @ fraction @ exponent
        \<and> sign \<in> insert [] {''-''} \<and> whole \<in> digit_strings \<and> fraction \<in> ?F \<and> exponent \<in> ?E"
    then obtain sign whole fraction exponent where
      s: "s = sign @ whole @ fraction @ exponent" and m: "sign \<in> insert [] {''-''}"
      "whole \<in> digit_strings" "fraction \<in> ?F" "exponent \<in> ?E"
      by blast
    from m(3,4) have "fraction @ exponent \<in> cat ?F ?E"
      unfolding cat_iff [of "fraction @ exponent"] by blast
    with m(2) have "whole @ fraction @ exponent \<in> cat digit_strings (cat ?F ?E)"
      unfolding cat_iff [of "whole @ fraction @ exponent"] by blast
    with m(1) have "sign @ whole @ fraction @ exponent \<in> cat (insert [] {''-''}) (cat digit_strings (cat ?F ?E))"
      unfolding cat_iff [of "sign @ whole @ fraction @ exponent"] by blast
    with s show "s \<in> cat (insert [] {''-''}) (cat digit_strings (cat ?F ?E))"
      by simp
  qed
  also have "\<dots> \<longleftrightarrow> numeric_literal s"
    unfolding numeric_literal_def in_fraction in_exponent by simp
  finally show ?thesis .
qed

lemma getIntersectionOf_function:
  "getIntersectionOf h checkers (Function f) =
     every (\<lambda>c. map_sum id to_boolean (call_function h f c)) checkers"
  by (simp add: getIntersectionOf_def)

lemma JSON_stringify_toJSON:
  "get_property (Object proto props) (StrKey ''toJSON'') = Function f \<Longrightarrow>
     JSON_stringify h (Object proto props) = toJSON_result h f (Object proto props) []"
  by (simp add: JSON_stringify_def)

lemma getMappedChecker_proto:
  "getMappedChecker [(''__proto__'', isObject)] (literal []) = Inr True"
  by (simp add: getMappedChecker_def literal_def isObject_def get_property_def)

subsection \<open>The claims\<close>

text \<open>
  C7. The checker that \<^verbatim>\<open>getIntersectionOf\<close> returns for zero checkers returns
  \<^verbatim>\<open>true\<close> for every value: \<^verbatim>\<open>every\<close> never runs its callback on the empty array.
\<close>

theorem getIntersectionOf_empty: "getIntersectionOf h [] v = Inr True"
  by (simp add: getIntersectionOf_def)

text \<open>
  C5. The claim: a declared key absent from the value is passed as \<^verbatim>\<open>undefined\<close> to its
  checker. The code reads \<^verbatim>\<open>v[k]\<close>, which follows the prototype chain: \<^verbatim>\<open>toString\<close> is
  not a property of the object \<^verbatim>\<open>{}\<close> itself, yet its checker receives the function
  inherited from \<^verbatim>\<open>Object.prototype\<close>, and \<^verbatim>\<open>getMappedChecker({toString: isUndefined})\<close>
  rejects \<^verbatim>\<open>{}\<close>, where \<^verbatim>\<open>isUndefined(undefined)\<close> is true.
\<close>

theorem getMappedChecker_inherited_key:
  "\<not> has_own_property (literal []) (StrKey ''toString'')
   \<and> isUndefined Undefined = Inr True
   \<and> get_property (literal []) (StrKey ''toString'') = Function 8
   \<and> getMappedChecker [(''toString'', isUndefined)] (literal []) = Inr False"
  by (simp add: literal_def isUndefined_def isObject_def getMappedChecker_def get_property_def
      Object_prototype_methods_def)

text \<open>
  C5, as amended. The checker of \<^verbatim>\<open>getMappedChecker(m)\<close> returns \<^verbatim>\<open>true\<close> exactly when the
  value is an object (and not \<^verbatim>\<open>null\<close>) and, for every key declared in \<open>m\<close>, the checker
  of the key returns \<^verbatim>\<open>true\<close> on what \<^verbatim>\<open>v[k]\<close> reads; it returns a boolean as soon as the
  declared checkers do on these values. A value that is not an object is rejected
  whatever \<open>m\<close> holds, so no key is inspected. A key found neither on the value nor
  along its prototype chain is read as \<^verbatim>\<open>undefined\<close>. Two objects that agree on the
  declared keys get the same answer: further keys are ignored. What is read at a key is
  the own property of the value if it has one, and otherwise what its prototype gives
  at that key.
\<close>

theorem getMappedChecker_iff:
  "(getMappedChecker m v = Inr True \<longleftrightarrow>
      isObject v = Inr True \<and>
      (\<forall>k c. map_of m k = Some c \<longrightarrow> c (get_property v (StrKey k)) = Inr True))
   \<and> ((\<forall>k c. map_of m k = Some c \<longrightarrow> (\<exists>b. c (get_property v (StrKey k)) = Inr b)) \<longrightarrow>
        (\<exists>b. getMappedChecker m v = Inr b))
   \<and> (isObject v = Inr False \<longrightarrow> getMappedChecker m v = Inr False)
   \<and> (\<not> has_property v (StrKey k) \<longrightarrow> get_property v (StrKey k) = Undefined)
   \<and> (isObject v = Inr True \<and> isObject v' = Inr True \<and>
        (\<forall>k\<in>fst ` set m. get_property v' (StrKey k) = get_property v (StrKey k)) \<longrightarrow>
        getMappedChecker m v' = getMappedChecker m v)
   \<and> (map_of props (StrKey k) = Some (enumerable, x) \<longrightarrow>
        get_property (Object proto props) (StrKey k) = x)
   \<and> (isObject v = Inr True \<and> \<not> has_own_property v (StrKey k) \<and> k \<noteq> ''__proto__'' \<longrightarrow>
        get_property v (StrKey k) = get_property (prototype_of v) (StrKey k))"
proof (intro conjI impI)
  show "getMappedChecker m v = Inr True \<longleftrightarrow>
      isObject v = Inr True \<and>
      (\<forall>k c. map_of m k = Some c \<longrightarrow> c (get_property v (StrKey k)) = Inr True)"
  proof (cases "isObject v = Inr True")
    case True
    have "(\<forall>k\<in>set (map fst m). \<exists>c. map_of m k = Some c \<and> c (get_property v (StrKey k)) = Inr True)
       \<longleftrightarrow> (\<forall>k c. map_of m k = Some c \<longrightarrow> c (get_property v (StrKey k)) = Inr True)"
    proof
      assume l: "\<forall>k\<in>set (map fst m). \<exists>c. map_of m k = Some c \<and> c (get_property v (StrKey k)) = Inr True"
      show "\<forall>k c. map_of m k = Some c \<longrightarrow> c (get_property v (StrKey k)) = Inr True"
      proof (intro allI impI)
        fix k c assume kc: "map_of m k = Some c"
        then have "k \<in> set (map fst m)"
          by (auto dest: map_of_SomeD intro: rev_image_eqI)
        with l kc show "c (get_property v (StrKey k)) = Inr True"
          by auto
      qed
    next
      assume r: "\<forall>k c. map_of m k = Some c \<longrightarrow> c (get_property v (StrKey k)) = Inr True"
      show "\<forall>k\<in>set (map fst m). \<exists>c. map_of m k = Some c \<and> c (get_property v (StrKey k)) = Inr True"
      proof
        fix k assume "k \<in> set (map fst m)"
        then obtain c where "map_of m k = Some c"
          using map_of_fst_Some [of k m] by auto
        with r show "\<exists>c. map_of m k = Some c \<and> c (get_property v (StrKey k)) = Inr True"
          by simp
      qed
    qed
    with True show ?thesis
      by (simp add: getMappedChecker_def check_keys_true_iff)
  next
    case False
    then have "isObject v = Inr False"
      by (simp add: isObject_def)
    with False show ?thesis
      by (simp add: getMappedChecker_def)
  qed
next
  assume total: "\<forall>k c. map_of m k = Some c \<longrightarrow> (\<exists>b. c (get_property v (StrKey k)) = Inr b)"
  have "\<forall>k\<in>set (map fst m). \<exists>c b. map_of m k = Some c \<and> c (get_property v (StrKey k)) = Inr b"
  proof
    fix k assume "k \<in> set (map fst m)"
    then obtain c where "map_of m k = Some c"
      using map_of_fst_Some [of k m] by auto
    with total show "\<exists>c b. map_of m k = Some c \<and> c (get_property v (StrKey k)) = Inr b"
      by simp
  qed
  then obtain b where "check_keys m (map fst m) v = Inr b"
    using check_keys_total by blast
  then show "\<exists>b. getMappedChecker m v = Inr b"
    by (cases "typeof v = ''object'' \<and> v \<noteq> Null") (auto simp: getMappedChecker_def isObject_def)
next
  assume "isObject v = Inr False"
  then show "getMappedChecker m v = Inr False"
    by (simp add: getMappedChecker_def)
next
  assume "\<not> has_property v (StrKey k)"
  then show "get_property v (StrKey k) = Undefined"
    by (rule get_property_absent)
next
  assume h: "isObject v = Inr True \<and> isObject v' = Inr True \<and>
        (\<forall>k\<in>fst ` set m. get_property v' (StrKey k) = get_property v (StrKey k))"
  then have "check_keys m (map fst m) v' = check_keys m (map fst m) v"
    by (intro check_keys_cong) simp
  with h show "getMappedChecker m v' = getMappedChecker m v"
    by (simp add: getMappedChecker_def)
next
  assume "map_of props (StrKey k) = Some (enumerable, x)"
  then show "get_property (Object proto props) (StrKey k) = x"
    by (rule get_property_own)
next
  assume "isObject v = Inr True \<and> \<not> has_own_property v (StrKey k) \<and> k \<noteq> ''__proto__''"
  then show "get_property v (StrKey k) = get_property (prototype_of v) (StrKey k)"
    by (simp add: get_property_inherited)
qed

theorem getMappedChecker_iff_witness:
  "getMappedChecker [(''a'', isNumber), (''b'', isString)]
     (literal [(''a'', Number (Finite 1)), (''b'', String ''x''), (''c'', Boolean True)]) = Inr True
   \<and> getMappedChecker [(''a'', isNumber), (''b'', isString)] (literal [(''a'', Number (Finite 1))]) = Inr False
   \<and> isObject Null = Inr False
   \<and> getMappedChecker [(''a'', isNumber), (''b'', isString)] Null = Inr False
   \<and> \<not> has_property (literal [(''a'', Number (Finite 1))]) (StrKey ''b'')
   \<and> get_property (literal [(''a'', Number (Finite 1))]) (StrKey ''b'') = Undefined
   \<and> getMappedChecker [(''a'', isNumber), (''b'', isString)]
       (literal [(''a'', Number (Finite 1)), (''b'', String ''x'')]) = Inr True
   \<and> get_property (literal [(''a'', Number (Finite 1))]) (StrKey ''a'') = Number (Finite 1)
   \<and> \<not> has_own_property (literal [(''a'', Number (Finite 1))]) (StrKey ''valueOf'')
   \<and> get_property (literal [(''a'', Number (Finite 1))]) (StrKey ''valueOf'') = Function 9
   \<and> get_property (literal [(''a'', Number (Finite 1))]) (StrKey ''__proto__'') = Object_prototype"
proof -
  let ?m = "[(''a'', isNumber), (''b'', isString)]"
  let ?abc = "literal [(''a'', Number (Finite 1)), (''b'', String ''x''), (''c'', Boolean True)]"
  let ?ab = "literal [(''a'', Number (Finite 1)), (''b'', String ''x'')]"
  let ?a = "literal [(''a'', Number (Finite 1))]"
  have obj: "isObject ?abc = Inr True" "isObject ?ab = Inr True" "isObject ?a = Inr True"
    by (simp_all add: isObject_def literal_def)
  have all: "\<forall>k c. map_of ?m k = Some c \<longrightarrow> c (get_property ?abc (StrKey k)) = Inr True"
    by (auto simp: literal_def get_property_def isNumber_def isString_def split: if_splits)
  have same: "\<forall>k\<in>fst ` set ?m. get_property ?ab (StrKey k) = get_property ?abc (StrKey k)"
    by (simp add: literal_def get_property_def)
  have absent: "\<not> has_property ?a (StrKey ''b'')"
    by (simp add: literal_def Object_prototype_methods_def)
  have total: "\<forall>k c. map_of ?m k = Some c \<longrightarrow> (\<exists>b. c (get_property ?a (StrKey k)) = Inr b)"
    by (auto simp: isNumber_def isString_def split: if_splits)
  have not_all: "\<not> (\<forall>k c. map_of ?m k = Some c \<longrightarrow> c (get_property ?a (StrKey k)) = Inr True)"
  proof
    assume "\<forall>k c. map_of ?m k = Some c \<longrightarrow> c (get_property ?a (StrKey k)) = Inr True"
    then have "isString (get_property ?a (StrKey ''b'')) = Inr True"
      by simp
    then show False
      by (simp add: literal_def get_property_def Object_prototype_methods_def isString_def)
  qed
  have null: "isObject Null = Inr False"
    by (simp add: isObject_def)
  have own: "map_of [(StrKey ''a'', True, Number (Finite 1))] (StrKey ''a'') = Some (True, Number (Finite 1))"
    by simp
  have not_own: "\<not> has_own_property ?a (StrKey ''valueOf'')"
    by (simp add: literal_def)
  have inherited: "isObject ?a = Inr True \<and> \<not> has_own_property ?a (StrKey ''valueOf'')
      \<and> ''valueOf'' \<noteq> ''__proto__''"
    using obj(3) not_own by simp
  note abc = getMappedChecker_iff [where m = ?m and v = ?abc and k = "''b''" and v' = ?ab]
  note a = getMappedChecker_iff [where m = ?m and v = ?a and k = "''b''" and v' = ?a]
  note n = getMappedChecker_iff [where m = ?m and v = Null and k = "''b''" and v' = Null]
  note o = getMappedChecker_iff [where m = ?m and v = ?a and k = "''a''" and v' = ?a
      and props = "[(StrKey ''a'', True, Number (Finite 1))]" and enumerable = True
      and x = "Number (Finite 1)" and proto = Object_prototype]
  note i = getMappedChecker_iff [where m = ?m and v = ?a and k = "''valueOf''" and v' = ?a]
  have r1: "getMappedChecker ?m ?abc = Inr True"
    by (rule abc [THEN conjunct1, THEN iffD2, OF conjI [OF obj(1) all]])
  have "getMappedChecker ?m ?ab = getMappedChecker ?m ?abc"
    by (rule abc [THEN conjunct2, THEN conjunct2, THEN conjunct2, THEN conjunct2, THEN conjunct1,
          THEN mp, OF conjI [OF obj(1) conjI [OF obj(2) same]]])
  with r1 have r5: "getMappedChecker ?m ?ab = Inr True"
    by simp
  obtain b where b: "getMappedChecker ?m ?a = Inr b"
    using a [THEN conjunct2, THEN conjunct1, THEN mp, OF total] by (rule exE)
  have "getMappedChecker ?m ?a \<noteq> Inr True"
  proof
    assume "getMappedChecker ?m ?a = Inr True"
    then have "\<forall>k c. map_of ?m k = Some c \<longrightarrow> c (get_property ?a (StrKey k)) = Inr True"
      by (rule a [THEN conjunct1, THEN iffD1, THEN conjunct2])
    with not_all show False ..
  qed
  with b have r2: "getMappedChecker ?m ?a = Inr False"
    by (cases b) simp_all
  have r3: "getMappedChecker ?m Null = Inr False"
    by (rule n [THEN conjunct2, THEN conjunct2, THEN conjunct1, THEN mp, OF null])
  have r4: "get_property ?a (StrKey ''b'') = Undefined"
    by (rule a [THEN conjunct2, THEN conjunct2, THEN conjunct2, THEN conjunct1, THEN mp, OF absent])
  have "get_property (Object Object_prototype [(StrKey ''a'', True, Number (Finite 1))]) (StrKey ''a'')
      = Number (Finite 1)"
    by (rule o [THEN conjunct2, THEN conjunct2, THEN conjunct2, THEN conjunct2, THEN conjunct2,
          THEN conjunct1, THEN mp, OF own])
  then have r6: "get_property ?a (StrKey ''a'') = Number (Finite 1)"
    by (simp add: literal_def)
  have "get_property ?a (StrKey ''valueOf'') = get_property (prototype_of ?a) (StrKey ''valueOf'')"
    by (rule i [THEN conjunct2, THEN conjunct2, THEN conjunct2, THEN conjunct2, THEN conjunct2,
          THEN conjunct2, THEN mp, OF inherited])
  then have r7: "get_property ?a (StrKey ''valueOf'') = Function 9"
    by (simp add: literal_def get_property_def Object_prototype_methods_def)
  have r8: "get_property ?a (StrKey ''__proto__'') = Object_prototype"
    by (simp add: literal_def get_property_def)
  from r1 r2 null r3 absent r4 r5 r6 not_own r7 r8 show ?thesis
    by (intro conjI)
qed

text \<open>
  C1. The claim: the checker of \<^verbatim>\<open>getIntersectionOf\<close> returns \<^verbatim>\<open>true\<close> exactly when
  every constituent returns \<^verbatim>\<open>true\<close> on the value, so that
  \<^verbatim>\<open>getIntersectionOf(isObject, getMappedChecker({a: isNumber}))\<close> accepts \<^verbatim>\<open>{a: 1}\<close>
  and rejects \<^verbatim>\<open>{a: "x"}\<close> and \<^verbatim>\<open>null\<close>. The code calls the value with the checker
  (\<^verbatim>\<open>v(c)\<close>) instead of the checker with the value: on \<^verbatim>\<open>{a: 1}\<close>, which both
  constituents accept, and on the two other values, the call throws a \<^verbatim>\<open>TypeError\<close>,
  since none of them is a function.
\<close>

theorem getIntersectionOf_example_throws:
  "isObject (literal [(''a'', Number (Finite 1))]) = Inr True
   \<and> getMappedChecker [(''a'', isNumber)] (literal [(''a'', Number (Finite 1))]) = Inr True
   \<and> getIntersectionOf h [isObject, getMappedChecker [(''a'', isNumber)]]
        (literal [(''a'', Number (Finite 1))]) = Inl NotAFunction
   \<and> getIntersectionOf h [isObject, getMappedChecker [(''a'', isNumber)]]
        (literal [(''a'', String ''x'')]) = Inl NotAFunction
   \<and> getIntersectionOf h [isObject, getMappedChecker [(''a'', isNumber)]] Null = Inl NotAFunction"
  by (simp add: getIntersectionOf_def literal_def isObject_def getMappedChecker_def isNumber_def
      get_property_def)

text \<open>
  C2. The claim: a checker returned by \<^verbatim>\<open>getIntersectionOf\<close> never throws. The code of
  \<^verbatim>\<open>getIntersectionOf(isNumber)\<close> throws a \<^verbatim>\<open>TypeError\<close> on the number \<open>5\<close>, which
  it calls as a function.
\<close>

theorem getIntersectionOf_throws_on_number:
  "getIntersectionOf h [isNumber] (Number (Finite 5)) = Inl NotAFunction"
  by (simp add: getIntersectionOf_def)

text \<open>
  C4. When every constituent returns a boolean on the value, the checker of
  \<^verbatim>\<open>getUnionOf\<close> returns \<^verbatim>\<open>true\<close> if at least one constituent returns \<^verbatim>\<open>true\<close> and
  \<^verbatim>\<open>false\<close> otherwise. The constituents run from left to right up to the first
  success: once the checkers before \<open>c\<close> have returned \<^verbatim>\<open>false\<close> and \<open>c\<close> returns
  \<^verbatim>\<open>true\<close>, the result is \<^verbatim>\<open>true\<close> whatever the later checkers would do, and this is
  the only way to the result \<^verbatim>\<open>true\<close>. Zero checkers give the always-false checker.
\<close>

theorem getUnionOf_any:
  "((\<forall>c\<in>set checkers. \<exists>b. c v = Inr b) \<longrightarrow>
      getUnionOf checkers v = Inr (\<exists>c\<in>set checkers. c v = Inr True))
   \<and> ((\<forall>d\<in>set pre. d v = Inr False) \<and> c v = Inr True \<longrightarrow>
        getUnionOf (pre @ c # post) v = Inr True)
   \<and> (getUnionOf checkers v = Inr True \<longleftrightarrow>
        (\<exists>pre c post. checkers = pre @ c # post \<and> (\<forall>d\<in>set pre. d v = Inr False) \<and> c v = Inr True))
   \<and> getUnionOf [] v = Inr False"
proof (intro conjI impI)
  assume "\<forall>c\<in>set checkers. \<exists>b. c v = Inr b"
  then show "getUnionOf checkers v = Inr (\<exists>c\<in>set checkers. c v = Inr True)"
    by (rule getUnionOf_total)
next
  assume "(\<forall>d\<in>set pre. d v = Inr False) \<and> c v = Inr True"
  then show "getUnionOf (pre @ c # post) v = Inr True"
    by (simp add: getUnionOf_first_success)
next
  show "getUnionOf checkers v = Inr True \<longleftrightarrow>
        (\<exists>pre c post. checkers = pre @ c # post \<and> (\<forall>d\<in>set pre. d v = Inr False) \<and> c v = Inr True)"
  proof
    assume "getUnionOf checkers v = Inr True"
    then show "\<exists>pre c post. checkers = pre @ c # post \<and> (\<forall>d\<in>set pre. d v = Inr False) \<and> c v = Inr True"
      by (rule getUnionOf_true_split)
  next
    assume "\<exists>pre c post. checkers = pre @ c # post \<and> (\<forall>d\<in>set pre. d v = Inr False) \<and> c v = Inr True"
    then obtain pre c post where
      "checkers = pre @ c # post" "\<forall>d\<in>set pre. d v = Inr False" "c v = Inr True"
      by blast
    then show "getUnionOf checkers v = Inr True"
      by (simp add: getUnionOf_first_success)
  qed
next
  show "getUnionOf [] v = Inr False"
    by simp
qed

theorem getUnionOf_any_witness:
  "getUnionOf [isString, isNumber] (String ''x'') = Inr True
   \<and> getUnionOf [isString, isNumber] (Number (Finite 5)) = Inr True
   \<and> getUnionOf [isString, isNumber] (Boolean True) = Inr False
   \<and> getUnionOf ([isString] @ isNumber # [getIntersectionOf example_host [isAny]]) (Number (Finite 5)) = Inr True"
proof -
  let ?cs = "[isString, isNumber]"
  have total: "\<forall>c\<in>set ?cs. \<exists>b. c v = Inr b" for v
    by (simp add: isString_def isNumber_def)
  have s: "(\<exists>c\<in>set ?cs. c (String ''x'') = Inr True) = True"
    by (simp add: isString_def)
  have n: "(\<exists>c\<in>set ?cs. c (Number (Finite 5)) = Inr True) = True"
    by (simp add: isNumber_def)
  have b: "(\<exists>c\<in>set ?cs. c (Boolean True) = Inr True) = False"
    by (simp add: isString_def isNumber_def)
  have first: "(\<forall>d\<in>set [isString]. d (Number (Finite 5)) = Inr False) \<and> isNumber (Number (Finite 5)) = Inr True"
    by (simp add: isString_def isNumber_def)
  have r1: "getUnionOf ?cs (String ''x'') = Inr True"
    using getUnionOf_any [of ?cs "String ''x''", THEN conjunct1, THEN mp, OF total] s by simp
  have r2: "getUnionOf ?cs (Number (Finite 5)) = Inr True"
    using getUnionOf_any [of ?cs "Number (Finite 5)", THEN conjunct1, THEN mp, OF total] n by simp
  have r3: "getUnionOf ?cs (Boolean True) = Inr False"
    using getUnionOf_any [of ?cs "Boolean True", THEN conjunct1, THEN mp, OF total] b by simp
  have r4: "getUnionOf ([isString] @ isNumber # [getIntersectionOf example_host [isAny]]) (Number (Finite 5)) = Inr True"
    by (rule getUnionOf_any [of _ "Number (Finite 5)" "[isString]" isNumber, THEN conjunct2, THEN conjunct1, THEN mp, OF first])
  from r1 r2 r3 r4 show ?thesis
    by (intro conjI)
qed

text \<open>
  C9. The nine primitive checkers are mutually exclusive: the checker of a category
  returns \<^verbatim>\<open>false\<close> on every value of another category and \<^verbatim>\<open>true\<close> on the values
  of its own, so no value is accepted by two of them. \<^verbatim>\<open>isObject(null)\<close> is false,
  \<^verbatim>\<open>isObject({})\<close> is true, \<^verbatim>\<open>isNull(null)\<close> is true, \<^verbatim>\<open>isNull(undefined)\<close> is false,
  and \<^verbatim>\<open>isUndefined\<close> accepts \<^verbatim>\<open>undefined\<close> and nothing else.
\<close>

theorem primitive_checkers_exclusive:
  "(category_of v \<noteq> k \<longrightarrow> primitive_checker k v = Inr False)
   \<and> (category_of v = k \<longrightarrow> primitive_checker k v = Inr True)
   \<and> (k \<noteq> k' \<longrightarrow> \<not> (primitive_checker k v = Inr True \<and> primitive_checker k' v = Inr True))
   \<and> isObject Null = Inr False
   \<and> isObject (literal []) = Inr True
   \<and> isNull Null = Inr True
   \<and> isNull Undefined = Inr False
   \<and> isUndefined v = Inr (v = Undefined)"
proof (intro conjI impI)
  show "isUndefined v = Inr (v = Undefined)"
    by (simp add: isUndefined_def)
qed (auto simp: primitive_checker_category isObject_def isNull_def literal_def)

theorem primitive_checkers_exclusive_witness:
  "category_of Null \<noteq> CObject \<and> isObject Null = Inr False
   \<and> category_of (Number (Finite 5)) = CNumber \<and> isNumber (Number (Finite 5)) = Inr True
   \<and> isString (Number (Finite 5)) = Inr False
   \<and> \<not> (isNumber (Number (Finite 5)) = Inr True \<and> isString (Number (Finite 5)) = Inr True)"
proof -
  have a: "category_of Null \<noteq> CObject" and b: "category_of (Number (Finite 5)) = CNumber"
    and c: "category_of (Number (Finite 5)) \<noteq> CString" and d: "CNumber \<noteq> CString"
    by simp_all
  have "primitive_checker CObject Null = Inr False"
    by (rule primitive_checkers_exclusive [THEN conjunct1, THEN mp, OF a])
  moreover have "primitive_checker CNumber (Number (Finite 5)) = Inr True"
    by (rule primitive_checkers_exclusive [THEN conjunct2, THEN conjunct1, THEN mp, OF b])
  moreover have "primitive_checker CString (Number (Finite 5)) = Inr False"
    by (rule primitive_checkers_exclusive [THEN conjunct1, THEN mp, OF c])
  moreover have "\<not> (primitive_checker CNumber (Number (Finite 5)) = Inr True
      \<and> primitive_checker CString (Number (Finite 5)) = Inr True)"
    by (rule primitive_checkers_exclusive [THEN conjunct2, THEN conjunct2, THEN conjunct1, THEN mp, OF d])
  ultimately show ?thesis
    using a b by simp
qed

text \<open>
  C10. \<^verbatim>\<open>Object.keys\<close> lists strings only, and a symbol-keyed property is not listed;
  so the checker of \<^verbatim>\<open>getRecordChecker\<close> depends on the key checker only through what
  it answers on strings. With a key checker that rejects every string (such as
  \<^verbatim>\<open>isNumber\<close>), the record checker returns \<^verbatim>\<open>false\<close> on every object that has an own
  enumerable string-keyed property, and \<^verbatim>\<open>true\<close> on an object that has none, such as
  the empty object.
\<close>

theorem getRecordChecker_keys_are_strings:
  "(\<forall>ks. Object_keys v = Inr ks \<longrightarrow> (\<forall>k\<in>set ks. \<exists>s. k = String s))
   \<and> Object_keys (Object proto ((SymKey n, enumerable, x) # props)) = Object_keys (Object proto props)
   \<and> ((\<forall>s. keyChecker (String s) = keyChecker' (String s)) \<longrightarrow>
        getRecordChecker keyChecker valueChecker v = getRecordChecker keyChecker' valueChecker v)
   \<and> ((\<forall>s. keyChecker (String s) = Inr False) \<longrightarrow>
        (isObject v = Inr True \<and> (\<exists>k ks. Object_keys v = Inr (k # ks)) \<longrightarrow>
           getRecordChecker keyChecker valueChecker v = Inr False)
        \<and> (isObject v = Inr True \<and> Object_keys v = Inr [] \<longrightarrow>
           getRecordChecker keyChecker valueChecker v = Inr True)
        \<and> getRecordChecker keyChecker valueChecker (literal []) = Inr True)"
proof (intro conjI impI allI)
  fix ks assume "Object_keys v = Inr ks"
  then show "\<forall>k\<in>set ks. \<exists>s. k = String s"
    by (rule Object_keys_strings)
next
  show "Object_keys (Object proto ((SymKey n, enumerable, x) # props)) = Object_keys (Object proto props)"
    by (simp add: Object_keys_def)
next
  assume same: "\<forall>s. keyChecker (String s) = keyChecker' (String s)"
  show "getRecordChecker keyChecker valueChecker v = getRecordChecker keyChecker' valueChecker v"
  proof (cases "Object_keys v")
    case (Inl e)
    then show ?thesis
      by (simp add: getRecordChecker_def cong: if_cong)
  next
    case (Inr ks)
    then have "\<forall>k\<in>set ks. \<exists>s. k = String s"
      by (rule Object_keys_strings)
    with same have "\<forall>k\<in>set ks. keyChecker k = keyChecker' k"
      by auto
    then have "every keyChecker ks = every keyChecker' ks"
      by (rule every_cong_on)
    with Inr show ?thesis
      by (simp add: getRecordChecker_def cong: if_cong)
  qed
next
  assume rej: "\<forall>s. keyChecker (String s) = Inr False"
  assume "isObject v = Inr True \<and> (\<exists>k ks. Object_keys v = Inr (k # ks))"
  then obtain k ks where obj: "isObject v = Inr True" and keys: "Object_keys v = Inr (k # ks)"
    by blast
  from keys have "\<forall>k'\<in>set (k # ks). \<exists>s. k' = String s"
    by (rule Object_keys_strings)
  then obtain s where "k = String s"
    by auto
  with rej have "every keyChecker (k # ks) = Inr False"
    by simp
  with obj keys show "getRecordChecker keyChecker valueChecker v = Inr False"
    by (simp add: getRecordChecker_def)
next
  assume "isObject v = Inr True \<and> Object_keys v = Inr []"
  then show "getRecordChecker keyChecker valueChecker v = Inr True"
    by (simp add: getRecordChecker_def Object_keys_values_Nil)
next
  show "getRecordChecker keyChecker valueChecker (literal []) = Inr True"
    by (simp add: getRecordChecker_def literal_def isObject_def Object_keys_def Object_values_def)
qed

theorem getRecordChecker_keys_are_strings_witness:
  "getRecordChecker isNumber isAny (literal [(''a'', Number (Finite 1))]) = Inr False
   \<and> getRecordChecker isNumber isAny (Array Null [String ''x'']) = Inr False
   \<and> getRecordChecker isNumber isAny (Object Null [(SymKey 0, True, Number (Finite 1))]) = Inr True
   \<and> getRecordChecker isNumber isAny (literal []) = Inr True
   \<and> getRecordChecker isNumber isAny (literal [(''a'', Number (Finite 1))])
       = getRecordChecker isNever isAny (literal [(''a'', Number (Finite 1))])
   \<and> Object_keys (Array Null [String ''x'']) = Inr [String ''0'']"
proof -
  let ?a = "literal [(''a'', Number (Finite 1))]"
  let ?arr = "Array Null [String ''x'']"
  let ?sym = "Object Null [(SymKey 0, True, Number (Finite 1))]"
  have rej: "\<forall>s. isNumber (String s) = Inr False"
    by (simp add: isNumber_def)
  have same: "\<forall>s. isNumber (String s) = isNever (String s)"
    by (simp add: isNumber_def isNever_def)
  have a: "isObject ?a = Inr True \<and> (\<exists>k ks. Object_keys ?a = Inr (k # ks))"
    by (simp add: isObject_def literal_def Object_keys_def)
  have arr_keys: "Object_keys ?arr = Inr [String ''0'']"
    by (simp add: Object_keys_def dec_digit)
  then have arr: "isObject ?arr = Inr True \<and> (\<exists>k ks. Object_keys ?arr = Inr (k # ks))"
    by (simp add: isObject_def)
  have sym: "isObject ?sym = Inr True \<and> Object_keys ?sym = Inr []"
    by (simp add: isObject_def Object_keys_def)
  note t = getRecordChecker_keys_are_strings [where keyChecker = isNumber and valueChecker = isAny]
  note on_rej = t [THEN conjunct2, THEN conjunct2, THEN conjunct2, THEN mp, OF rej]
  have r1: "getRecordChecker isNumber isAny ?a = Inr False"
    by (rule on_rej [THEN conjunct1, THEN mp, OF a])
  have r2: "getRecordChecker isNumber isAny ?arr = Inr False"
    by (rule on_rej [THEN conjunct1, THEN mp, OF arr])
  have r3: "getRecordChecker isNumber isAny ?sym = Inr True"
    by (rule on_rej [THEN conjunct2, THEN conjunct1, THEN mp, OF sym])
  have r4: "getRecordChecker isNumber isAny (literal []) = Inr True"
    by (rule on_rej [THEN conjunct2, THEN conjunct2])
  have r5: "getRecordChecker isNumber isAny ?a = getRecordChecker isNever isAny ?a"
    by (rule t [THEN conjunct2, THEN conjunct2, THEN conjunct1, THEN mp, OF same])
  from r1 r2 r3 r4 r5 arr_keys show ?thesis
    by (intro conjI)
qed

text \<open>
  C3. The claim: when the checker rejects the value, \<^verbatim>\<open>cast(c, name)(v)\<close> fails with the
  message "value ... is not of type name" whenever a name was supplied. It fails at the
  empty name, which the code treats as no name, and at a BigInt, on which
  \<^verbatim>\<open>JSON.stringify\<close> throws before any message exists.
\<close>

theorem cast_claim_fails:
  "isNumber (String ''x'') = Inr False
   \<and> cast example_host isNumber (Some '''') (String ''x'')
       = Inl (TypeError (''value '' @ [CHR 0x22, CHR ''x'', CHR 0x22] @ '' is of an invalid type''))
   \<and> cast example_host isNumber (Some '''') (String ''x'')
       \<noteq> Inl (TypeError (''value '' @ [CHR 0x22, CHR ''x'', CHR 0x22] @ '' is not of type '' @ ''''))
   \<and> isNumber (BigInt 1) = Inr False
   \<and> cast example_host isNumber (Some ''number'') (BigInt 1) = Inl CannotSerializeBigInt"
  by (simp add: cast_def cast_with_def isNumber_def JSON_stringify_def QuoteJSONString_def quote_char_def)

text \<open>
  C3, as amended. When the checker accepts the value, \<^verbatim>\<open>cast(c, name)(v)\<close> returns the
  value unchanged. When the checker rejects it and \<^verbatim>\<open>JSON.stringify(v)\<close> returns, the
  call throws a \<^verbatim>\<open>TypeError\<close> whose message is "value R is not of type N" for a
  non-empty name \<open>N\<close>, and "value R is of an invalid type" when the name is left out or
  empty; \<open>R\<close> is the text \<^verbatim>\<open>JSON.stringify\<close> returned, or \<^verbatim>\<open>undefined\<close> when it
  returned no text.
\<close>

theorem cast_result:
  "(checker v = Inr True \<longrightarrow> cast h checker expectedTypeName v = Inr v)
   \<and> (checker v = Inr False \<and> JSON_stringify h v = Inr json \<longrightarrow>
        cast h checker expectedTypeName v =
          Inl (TypeError (''value '' @ template json @
            (case expectedTypeName of
               None \<Rightarrow> '' is of an invalid type''
             | Some name \<Rightarrow>
                 if name = [] then '' is of an invalid type'' else '' is not of type '' @ name))))"
  by (cases expectedTypeName) (simp_all add: cast_def cast_with_def)

theorem cast_result_witness:
  "cast example_host isNumber None (Number (Finite 5)) = Inr (Number (Finite 5))
   \<and> cast example_host isNumber (Some ''number'') (String ''x'')
       = Inl (TypeError (''value '' @ [CHR 0x22, CHR ''x'', CHR 0x22] @ '' is not of type number''))
   \<and> cast example_host isNumber None (String ''x'')
       = Inl (TypeError (''value '' @ [CHR 0x22, CHR ''x'', CHR 0x22] @ '' is of an invalid type''))
   \<and> cast example_host isNumber (Some ''number'') Undefined
       = Inl (TypeError ''value undefined is not of type number'')"
proof -
  have acc: "isNumber (Number (Finite 5)) = Inr True"
    by (simp add: isNumber_def)
  have rej: "isNumber (String ''x'') = Inr False \<and> JSON_stringify example_host (String ''x'') = Inr (Some [CHR 0x22, CHR ''x'', CHR 0x22])"
    by (simp add: isNumber_def JSON_stringify_def QuoteJSONString_def quote_char_def)
  have und: "isNumber Undefined = Inr False \<and> JSON_stringify example_host Undefined = Inr None"
    by (simp add: isNumber_def JSON_stringify_def)
  have r1: "cast example_host isNumber None (Number (Finite 5)) = Inr (Number (Finite 5))"
    by (rule cast_result [of isNumber "Number (Finite 5)" example_host None, THEN conjunct1, THEN mp, OF acc])
  have r2: "cast example_host isNumber (Some ''number'') (String ''x'')
       = Inl (TypeError (''value '' @ [CHR 0x22, CHR ''x'', CHR 0x22] @ '' is not of type number''))"
    using cast_result [of isNumber "String ''x''" example_host "Some ''number''", THEN conjunct2, THEN mp, OF rej]
    by simp
  have r3: "cast example_host isNumber None (String ''x'')
       = Inl (TypeError (''value '' @ [CHR 0x22, CHR ''x'', CHR 0x22] @ '' is of an invalid type''))"
    using cast_result [of isNumber "String ''x''" example_host None, THEN conjunct2, THEN mp, OF rej]
    by simp
  have r4: "cast example_host isNumber (Some ''number'') Undefined
       = Inl (TypeError ''value undefined is not of type number'')"
    using cast_result [of isNumber Undefined example_host "Some ''number''", THEN conjunct2, THEN mp, OF und]
    by simp
  from r1 r2 r3 r4 show ?thesis
    by (intro conjI)
qed

text \<open>
  C8. The claim: building the message of \<^verbatim>\<open>cast\<close> never throws, a value that cannot
  be serialised being rendered by a fallback. The code has no fallback: on a BigInt,
  and on an object that holds a BigInt, both of which \<^verbatim>\<open>isString\<close> rejects, the error
  of \<^verbatim>\<open>JSON.stringify\<close> leaves \<^verbatim>\<open>cast\<close>.
\<close>

theorem cast_secondary_error:
  "isString (BigInt 7) = Inr False
   \<and> cast example_host isString (Some ''string'') (BigInt 7) = Inl CannotSerializeBigInt
   \<and> isString (literal [(''id'', BigInt 7)]) = Inr False
   \<and> cast example_host isString None (literal [(''id'', BigInt 7)]) = Inl CannotSerializeBigInt"
  by (simp add: cast_def cast_with_def isString_def literal_def get_property_def
      Object_prototype_methods_def JSON_stringify_def)

text \<open>
  C8, as amended. \<^verbatim>\<open>cast\<close> builds its message from \<^verbatim>\<open>JSON.stringify(v)\<close> alone, with no
  fallback. For a value the checker rejects, whatever the values are and whatever
  \<^verbatim>\<open>JSON.stringify\<close> does on them: when \<^verbatim>\<open>JSON.stringify\<close> returns, building the message
  throws nothing and \<^verbatim>\<open>cast\<close> throws its own \<^verbatim>\<open>TypeError\<close>; when \<^verbatim>\<open>JSON.stringify\<close>
  throws, that error leaves \<^verbatim>\<open>cast\<close> in place of the message. \<^verbatim>\<open>JSON.stringify\<close> returns
  \<^verbatim>\<open>undefined\<close> on \<^verbatim>\<open>undefined\<close>, on a function and on a symbol, which the message
  renders as \<^verbatim>\<open>undefined\<close>, and it throws on a BigInt.
\<close>

theorem cast_message_construction:
  "(checker v = Inr False \<and> stringify v = Inr json \<longrightarrow>
      (\<exists>msg. cast_with stringify checker expectedTypeName v = Inl (TypeError msg)))
   \<and> (checker v = Inr False \<and> stringify v = Inl e \<longrightarrow>
        cast_with stringify checker expectedTypeName v = Inl e)
   \<and> cast h = cast_with (JSON_stringify h)
   \<and> JSON_stringify h Undefined = Inr None
   \<and> JSON_stringify h (Function f) = Inr None
   \<and> JSON_stringify h (Symbol n) = Inr None
   \<and> JSON_stringify h (BigInt i) = Inl CannotSerializeBigInt"
proof (intro conjI impI)
  assume "checker v = Inr False \<and> stringify v = Inr json"
  then show "\<exists>msg. cast_with stringify checker expectedTypeName v = Inl (TypeError msg)"
    by (cases expectedTypeName) (simp_all add: cast_with_def)
next
  assume "checker v = Inr False \<and> stringify v = Inl e"
  then show "cast_with stringify checker expectedTypeName v = Inl e"
    by (cases expectedTypeName) (simp_all add: cast_with_def)
next
  show "cast h = cast_with (JSON_stringify h)"
    by (simp add: cast_def)
qed (simp_all add: JSON_stringify_def)

theorem cast_message_construction_witness:
  "isNumber (Function 3) = Inr False
   \<and> JSON_stringify example_host (Function 3) = Inr None
   \<and> cast example_host isNumber (Some ''number'') (Function 3)
       = Inl (TypeError ''value undefined is not of type number'')
   \<and> isNumber (BigInt 1) = Inr False
   \<and> JSON_stringify example_host (BigInt 1) = Inl CannotSerializeBigInt
   \<and> cast example_host isNumber (Some ''number'') (BigInt 1) = Inl CannotSerializeBigInt"
proof -
  note t = cast_message_construction [where h = example_host and checker = isNumber
      and stringify = "JSON_stringify example_host" and expectedTypeName = "Some ''number''"]
  have rf: "isNumber (Function 3) = Inr False" and rb: "isNumber (BigInt 1) = Inr False"
    by (simp_all add: isNumber_def)
  have sf: "JSON_stringify example_host (Function 3) = Inr None"
    by (rule t [THEN conjunct2, THEN conjunct2, THEN conjunct2, THEN conjunct2, THEN conjunct1])
  have sb: "JSON_stringify example_host (BigInt 1) = Inl CannotSerializeBigInt"
    by (rule t [THEN conjunct2, THEN conjunct2, THEN conjunct2, THEN conjunct2, THEN conjunct2,
          THEN conjunct2])
  have c: "cast example_host = cast_with (JSON_stringify example_host)"
    by (rule t [THEN conjunct2, THEN conjunct2, THEN conjunct1])
  obtain msg where "cast_with (JSON_stringify example_host) isNumber (Some ''number'') (Function 3)
      = Inl (TypeError msg)"
    using t [where v = "Function 3" and json = None, THEN conjunct1, THEN mp, OF conjI [OF rf sf]]
    by (rule exE)
  then have r1: "cast example_host isNumber (Some ''number'') (Function 3)
      = Inl (TypeError ''value undefined is not of type number'')"
    by (simp add: c cast_with_def isNumber_def sf)
  have "cast_with (JSON_stringify example_host) isNumber (Some ''number'') (BigInt 1)
      = Inl CannotSerializeBigInt"
    by (rule t [where v = "BigInt 1" and e = CannotSerializeBigInt, THEN conjunct2, THEN conjunct1,
          THEN mp, OF conjI [OF rb sb]])
  then have r2: "cast example_host isNumber (Some ''number'') (BigInt 1) = Inl CannotSerializeBigInt"
    by (simp add: c)
  from rf sf r1 rb sb r2 show ?thesis
    by (intro conjI)
qed

text \<open>
  C6. The claim: the checker of \<^verbatim>\<open>getEnumChecker\<close> accepts a value exactly when it is
  strictly equal to a candidate value. \<^verbatim>\<open>includes\<close> does not compare with \<^verbatim>\<open>===\<close>:
  for the enum \<^verbatim>\<open>{A: NaN}\<close> the checker accepts \<^verbatim>\<open>NaN\<close>, which is strictly equal to
  nothing.
\<close>

theorem getEnumChecker_accepts_NaN:
  "\<not> regex_test NUMBER_REGEX ''A''
   \<and> getEnumChecker [(''A'', EnumNumber NaN)] (Number NaN) = Inr True
   \<and> \<not> strict_equals (enum_jsval (EnumNumber NaN)) (Number NaN)"
  by (simp add: getEnumChecker_def enum_values_def Array_includes_def strict_equals_def NUMBER_REGEX_def)

text \<open>
  C6, as amended. A key matches \<^verbatim>\<open>NUMBER_REGEX\<close> exactly when it is a numeric literal
  (optional minus, digits, optional fraction, optional exponent). The candidate values
  of \<^verbatim>\<open>getEnumChecker(e)\<close> are the values of the keys of \<open>e\<close> that do not match, and the
  checker accepts a value exactly when it is the same value as a candidate in the sense
  of \<^verbatim>\<open>includes\<close>: strictly equal to it, or \<^verbatim>\<open>NaN\<close> like it. For \<^verbatim>\<open>Colour\<close> the
  candidates are \<open>0\<close> and \<open>1\<close>; the checker accepts them and rejects \<open>2\<close> and
  \<^verbatim>\<open>"Red"\<close>.
\<close>

theorem getEnumChecker_candidates:
  "(regex_test NUMBER_REGEX k \<longleftrightarrow> numeric_literal k)
   \<and> (v \<in> set (enum_values enumType) \<longleftrightarrow>
        (\<exists>k x. map_of enumType k = Some x \<and> \<not> regex_test NUMBER_REGEX k \<and> enum_jsval x = v))
   \<and> getEnumChecker enumType v =
        Inr (\<exists>k x. map_of enumType k = Some x \<and> \<not> regex_test NUMBER_REGEX k \<and> enum_jsval x = v)
   \<and> (v \<noteq> Number NaN \<longrightarrow>
        getEnumChecker enumType v =
          Inr (\<exists>k x. map_of enumType k = Some x \<and> \<not> regex_test NUMBER_REGEX k
                 \<and> strict_equals (enum_jsval x) v))"
proof (intro conjI impI)
  show "regex_test NUMBER_REGEX k \<longleftrightarrow> numeric_literal k"
    by (rule NUMBER_REGEX_numeric_literal)
  show "v \<in> set (enum_values enumType) \<longleftrightarrow>
        (\<exists>k x. map_of enumType k = Some x \<and> \<not> regex_test NUMBER_REGEX k \<and> enum_jsval x = v)"
    by (rule enum_values_set)
  show same: "getEnumChecker enumType v =
     Inr (\<exists>k x. map_of enumType k = Some x \<and> \<not> regex_test NUMBER_REGEX k \<and> enum_jsval x = v)"
    by (simp add: getEnumChecker_def Array_includes_def enum_values_set)
  assume "v \<noteq> Number NaN"
  then have "strict_equals (enum_jsval x) v \<longleftrightarrow> enum_jsval x = v" for x
    by (auto simp: strict_equals_def)
  with same show "getEnumChecker enumType v =
          Inr (\<exists>k x. map_of enumType k = Some x \<and> \<not> regex_test NUMBER_REGEX k
                 \<and> strict_equals (enum_jsval x) v)"
    by simp
qed

theorem getEnumChecker_candidates_witness:
  "enum_values Colour = [Number (Finite 0), Number (Finite 1)]
   \<and> getEnumChecker Colour (Number (Finite 0)) = Inr True
   \<and> getEnumChecker Colour (Number (Finite 1)) = Inr True
   \<and> getEnumChecker Colour (Number (Finite 2)) = Inr False
   \<and> getEnumChecker Colour (String ''Red'') = Inr False"
proof -
  have keys: "regex_test NUMBER_REGEX ''0''" "regex_test NUMBER_REGEX ''1''"
    "\<not> regex_test NUMBER_REGEX ''Red''" "\<not> regex_test NUMBER_REGEX ''Green''"
    by (simp_all add: NUMBER_REGEX_def)
  have vals: "enum_values Colour = [Number (Finite 0), Number (Finite 1)]"
    by (simp add: enum_values_def Colour_def NUMBER_REGEX_def)
  have ex: "(\<exists>k x. map_of Colour k = Some x \<and> \<not> regex_test NUMBER_REGEX k
               \<and> strict_equals (enum_jsval x) v) \<longleftrightarrow> v = Number (Finite 0) \<or> v = Number (Finite 1)" for v
  proof
    assume "\<exists>k x. map_of Colour k = Some x \<and> \<not> regex_test NUMBER_REGEX k \<and> strict_equals (enum_jsval x) v"
    then obtain k x where kx: "map_of Colour k = Some x" "\<not> regex_test NUMBER_REGEX k"
      "strict_equals (enum_jsval x) v"
      by blast
    from kx(1,2) keys have "x = EnumNumber (Finite 0) \<or> x = EnumNumber (Finite 1)"
      by (auto simp: Colour_def split: if_splits)
    with kx(3) show "v = Number (Finite 0) \<or> v = Number (Finite 1)"
      by (auto simp: strict_equals_def)
  next
    assume "v = Number (Finite 0) \<or> v = Number (Finite 1)"
    then show "\<exists>k x. map_of Colour k = Some x \<and> \<not> regex_test NUMBER_REGEX k \<and> strict_equals (enum_jsval x) v"
    proof
      assume "v = Number (Finite 0)"
      with keys have "map_of Colour ''Red'' = Some (EnumNumber (Finite 0)) \<and> \<not> regex_test NUMBER_REGEX ''Red''
          \<and> strict_equals (enum_jsval (EnumNumber (Finite 0))) v"
        by (simp add: Colour_def strict_equals_def)
      then show ?thesis by blast
    next
      assume "v = Number (Finite 1)"
      with keys have "map_of Colour ''Green'' = Some (EnumNumber (Finite 1)) \<and> \<not> regex_test NUMBER_REGEX ''Green''
          \<and> strict_equals (enum_jsval (EnumNumber (Finite 1))) v"
        by (simp add: Colour_def strict_equals_def)
      then show ?thesis by blast
    qed
  qed
  have strict: "getEnumChecker Colour v = Inr (v = Number (Finite 0) \<or> v = Number (Finite 1))"
    if "v \<noteq> Number NaN" for v
    using getEnumChecker_candidates [of "''Red''" v Colour, THEN conjunct2, THEN conjunct2,
        THEN conjunct2, THEN mp, OF that]
    by (simp only: ex)
  have r0: "getEnumChecker Colour (Number (Finite 0)) = Inr True"
    using strict [of "Number (Finite 0)"] by simp
  have r1: "getEnumChecker Colour (Number (Finite 1)) = Inr True"
    using strict [of "Number (Finite 1)"] by simp
  have r2: "getEnumChecker Colour (Number (Finite 2)) = Inr False"
    using strict [of "Number (Finite 2)"] by simp
  have r3: "getEnumChecker Colour (String ''Red'') = Inr False"
    using strict [of "String ''Red''"] by simp
  from vals r0 r1 r2 r3 show ?thesis
    by (intro conjI)
qed

end
